theory Spec2Isabelle
  imports Complex_Main "HOL-Library.Monad_Syntax"
begin

section \<open>Data model of \<open>parsers.py\<close>\<close>

text \<open>
  Conventions of the embedding.
  \<^item> A Python \<open>float\<close> is a \<open>real\<close> in the aggregation and in the correlation: rounding
    of the arithmetic is outside the model. The fields of a guiding frame that
    \<open>_parse_frame\<close> converts with \<open>float\<close> carry their type as the parameter \<open>'f\<close> of the
    records, because \<open>float\<close> also returns \<open>nan\<close> and the infinities: at \<open>real\<close> the
    frames are finite, at \<open>pyfloat\<close> they hold every double, and the RMS over them is
    computed with the range of a double (section \<open>Floating-point values\<close>).
  \<^item> A naive \<open>datetime\<close> is an \<open>int\<close>: the number of microseconds since
    1970-01-01T00:00:00 of the local zone, whose offset is taken to be constant, so that
    \<open>timestamp()\<close> and \<open>fromtimestamp\<close> are inverse up to the rounding to microseconds.
    The year range of \<open>datetime\<close> (1 to 9999) is not modelled in the arithmetic.
  \<^item> A \<open>timedelta\<close> is an \<open>int\<close> of microseconds.
  \<^item> Record fields that share a name in the source carry the record as a prefix.
\<close>

type_synonym datetime = int

record 'f GuidingFrame =
  frame :: int
  time :: 'f
  dx :: 'f
  dy :: 'f
  ra_raw :: 'f
  dec_raw :: 'f
  ra_guide :: 'f
  dec_guide :: 'f
  ra_duration :: int
  dec_duration :: int
  ra_direction :: string
  dec_direction :: string
  star_mass :: 'f
  snr :: 'f
  error_code :: int

record 'f GuidingSession =
  start_time :: datetime
  end_time :: "datetime option"
  equipment_profile :: string
  pixel_scale :: real
  focal_length :: int
  ra :: real
  dec :: real
  hour_angle :: real
  pier_side :: string
  altitude :: real
  azimuth :: real
  frames :: "'f GuidingFrame list"

record AutofocusRun =
  af_timestamp :: datetime
  af_trigger :: string
  af_filter_name :: string
  af_initial_position :: int
  af_final_position :: int
  af_final_hfr :: real
  af_temperature :: "real option"

record Exposure =
  timestamp :: datetime
  exposure_time :: real
  filter_name :: string
  gain :: int
  offset :: int
  binning :: string
  image_type :: string
  hfr :: "real option"
  stars_detected :: "int option"
  saved_path :: "string option"
  ra_rms :: "real option"
  dec_rms :: "real option"
  total_rms :: "real option"
  guiding_frames :: nat

record FilterChange =
  fc_timestamp :: datetime
  fc_filter_name :: string
  fc_position :: int

record MeridianFlip =
  mf_timestamp :: datetime
  mf_from_pier_side :: string
  mf_to_pier_side :: string

record RMSAlert =
  alert_timestamp :: datetime
  alert_total_rms :: real
  alert_ra_rms :: real
  alert_dec_rms :: real
  alert_threshold :: real

record DitherEvent =
  dither_start_time :: datetime
  dither_end_time :: "datetime option"

section \<open>Time arithmetic\<close>

text \<open>Rounding to the nearest integer, ties to the even one, as \<open>timedelta(seconds=x)\<close>
  and \<open>datetime.fromtimestamp(x)\<close> round to microseconds.\<close>

definition round_half_even :: "real \<Rightarrow> int" where
  "round_half_even x =
     (let f = \<lfloor>x\<rfloor>; d = x - of_int f
      in if d < 1 / 2 then f else if 1 / 2 < d then f + 1 else if even f then f else f + 1)"

definition timedelta_seconds :: "real \<Rightarrow> int" where
  "timedelta_seconds s = round_half_even (s * 1000000)"

definition to_timestamp :: "datetime \<Rightarrow> real" where
  "to_timestamp d = of_int d / 1000000"

definition fromtimestamp :: "real \<Rightarrow> datetime" where
  "fromtimestamp x = round_half_even (x * 1000000)"

definition total_seconds :: "int \<Rightarrow> real" where
  "total_seconds td = of_int td / 1000000"

text \<open>The absolute time of a frame:
  \<open>datetime.fromtimestamp(session.start_time.timestamp() + frame.time)\<close>.\<close>

definition frame_datetime :: "real GuidingSession \<Rightarrow> real GuidingFrame \<Rightarrow> datetime" where
  "frame_datetime session f = fromtimestamp (to_timestamp (start_time session) + time f)"

section \<open>Root mean square\<close>

text \<open>\<open>float(np.sqrt(np.mean(np.square(values))))\<close>; every call site guards the empty list.\<close>

definition rms_px :: "real list \<Rightarrow> real" where
  "rms_px vs = sqrt (sum_list (map (\<lambda>v. v * v) vs) / of_nat (length vs))"

text \<open>The derived properties of \<open>real GuidingSession\<close>.\<close>

definition session_ra_rms :: "real GuidingSession \<Rightarrow> real" where
  "session_ra_rms s =
     (if frames s = [] then 0
      else (let r = rms_px (map ra_raw (frames s))
            in if pixel_scale s \<noteq> 0 then r * pixel_scale s else r))"

definition session_dec_rms :: "real GuidingSession \<Rightarrow> real" where
  "session_dec_rms s =
     (if frames s = [] then 0
      else (let r = rms_px (map dec_raw (frames s))
            in if pixel_scale s \<noteq> 0 then r * pixel_scale s else r))"

definition session_total_rms :: "real GuidingSession \<Rightarrow> real" where
  "session_total_rms s =
     (if frames s = [] then 0
      else sqrt ((session_ra_rms s)\<^sup>2 + (session_dec_rms s)\<^sup>2))"

section \<open>Dither exclusion\<close>

text \<open>\<open>PHD2Parser._is_during_dither\<close>: the loop returns at the first window that
  holds the timestamp.\<close>

fun is_during_dither :: "datetime \<Rightarrow> DitherEvent list \<Rightarrow> real \<Rightarrow> bool" where
  "is_during_dither ts [] margin_seconds = False"
| "is_during_dither ts (d # ds) margin_seconds =
     (let margin = timedelta_seconds margin_seconds;
          start = dither_start_time d - margin;
          end = (case dither_end_time d of Some e \<Rightarrow> e | None \<Rightarrow> dither_start_time d) + margin
      in if start \<le> ts \<and> ts \<le> end then True else is_during_dither ts ds margin_seconds)"

text \<open>The guard \<open>dither_events and self._is_during_dither(...)\<close>: \<open>None\<close> and the empty
  list are both false.\<close>

definition skip_frame :: "DitherEvent list option \<Rightarrow> real \<Rightarrow> datetime \<Rightarrow> bool" where
  "skip_frame dither_events margin_seconds ts =
     (case dither_events of
        None \<Rightarrow> False
      | Some ds \<Rightarrow> ds \<noteq> [] \<and> is_during_dither ts ds margin_seconds)"

section \<open>\<open>PHD2Parser.get_rms_over_time\<close>\<close>

text \<open>The statistics of one bucket, as appended to \<open>results\<close>.\<close>

definition bucket_rms ::
  "real \<Rightarrow> datetime \<times> real GuidingFrame list \<Rightarrow> datetime \<times> real \<times> real \<times> real" where
  "bucket_rms scale b =
     (let ra = rms_px (map ra_raw (snd b)) * scale;
          de = rms_px (map dec_raw (snd b)) * scale
      in (fst b, ra, de, sqrt (ra\<^sup>2 + de\<^sup>2)))"

text \<open>The inner loop over the frames of one session. The state of the loop is
  \<open>bucket_start\<close> and \<open>current_bucket\<close>; the function returns the buckets it closes, each with
  its start and its member frames, the statistics being taken by \<open>bucket_rms\<close> afterwards.\<close>

fun bucket_loop ::
  "real GuidingSession \<Rightarrow> real \<Rightarrow> DitherEvent list option \<Rightarrow> real \<Rightarrow>
   real GuidingFrame list \<Rightarrow> datetime \<Rightarrow> real GuidingFrame list \<Rightarrow> (datetime \<times> real GuidingFrame list) list"
where
  "bucket_loop session interval dither_events margin [] bucket_start current_bucket =
     (if current_bucket \<noteq> [] then [(bucket_start, current_bucket)] else [])"
| "bucket_loop session interval dither_events margin (f # fs) bucket_start current_bucket =
     (let frame_dt = frame_datetime session f
      in if skip_frame dither_events margin frame_dt
         then bucket_loop session interval dither_events margin fs bucket_start current_bucket
         else if interval \<le> total_seconds (frame_dt - bucket_start)
         then (if current_bucket \<noteq> [] then [(bucket_start, current_bucket)] else [])
              @ bucket_loop session interval dither_events margin fs frame_dt [f]
         else bucket_loop session interval dither_events margin fs bucket_start
                (current_bucket @ [f]))"

definition session_buckets ::
  "real \<Rightarrow> DitherEvent list option \<Rightarrow> real \<Rightarrow> real GuidingSession \<Rightarrow>
   (datetime \<times> real GuidingFrame list) list" where
  "session_buckets interval dither_events margin session =
     (if frames session = [] then []
      else bucket_loop session interval dither_events margin (frames session)
             (start_time session) [])"


section \<open>\<open>PHD2Parser.get_overall_rms\<close>\<close>

text \<open>The frames of one session that are not skipped.\<close>

definition kept_frames ::
  "DitherEvent list option \<Rightarrow> real \<Rightarrow> real GuidingSession \<Rightarrow> real GuidingFrame list" where
  "kept_frames dither_events margin session =
     filter (\<lambda>f. \<not> skip_frame dither_events margin (frame_datetime session f)) (frames session)"

text \<open>The loop over the sessions: \<open>pixel_scale\<close> is assigned at every session whose scale
  is nonzero, and the raw errors are appended to \<open>all_ra\<close> and \<open>all_dec\<close>.\<close>

fun overall_loop ::
  "DitherEvent list option \<Rightarrow> real \<Rightarrow> real GuidingSession list \<Rightarrow>
   real \<times> real list \<times> real list \<Rightarrow> real \<times> real list \<times> real list" where
  "overall_loop dither_events margin [] acc = acc"
| "overall_loop dither_events margin (s # ss) (scale, all_ra, all_dec) =
     overall_loop dither_events margin ss
       (if pixel_scale s \<noteq> 0 then pixel_scale s else scale,
        all_ra @ map ra_raw (kept_frames dither_events margin s),
        all_dec @ map dec_raw (kept_frames dither_events margin s))"

definition get_overall_rms ::
  "real GuidingSession list \<Rightarrow> DitherEvent list option \<Rightarrow> real \<Rightarrow> real \<times> real \<times> real" where
  "get_overall_rms sessions dither_events margin =
     (case overall_loop dither_events margin sessions (1, [], []) of
        (scale, all_ra, all_dec) \<Rightarrow>
          if all_ra = [] then (0, 0, 0)
          else (let r = rms_px all_ra * scale; d = rms_px all_dec * scale
                in (r, d, sqrt (r\<^sup>2 + d\<^sup>2))))"

section \<open>\<open>correlate_guiding_with_exposures\<close>\<close>

text \<open>The first loop: the scale of the first session that has a nonzero one, with
  \<open>break\<close>.\<close>

fun first_pixel_scale :: "'f GuidingSession list \<Rightarrow> real" where
  "first_pixel_scale [] = 1"
| "first_pixel_scale (s # ss) = (if pixel_scale s \<noteq> 0 then pixel_scale s else first_pixel_scale ss)"

text \<open>The inlined dither test of the correlation, with its \<open>break\<close>.\<close>

fun is_dither :: "datetime \<Rightarrow> int \<Rightarrow> DitherEvent list \<Rightarrow> bool" where
  "is_dither frame_dt margin [] = False"
| "is_dither frame_dt margin (d # ds) =
     (let d_start = dither_start_time d - margin;
          d_end = (case dither_end_time d of Some e \<Rightarrow> e | None \<Rightarrow> dither_start_time d) + margin
      in if d_start \<le> frame_dt \<and> frame_dt \<le> d_end then True else is_dither frame_dt margin ds)"

text \<open>Whether a frame is collected for an exposure.\<close>

definition qualifies ::
  "DitherEvent list option \<Rightarrow> real \<Rightarrow> Exposure \<Rightarrow> real GuidingSession \<Rightarrow> real GuidingFrame \<Rightarrow> bool" where
  "qualifies dither_events margin_seconds exposure session f =
     (let exp_start = timestamp exposure;
          exp_end = exp_start + timedelta_seconds (exposure_time exposure);
          frame_dt = frame_datetime session f
      in exp_start \<le> frame_dt \<and> frame_dt \<le> exp_end \<and>
         (case dither_events of
            None \<Rightarrow> True
          | Some ds \<Rightarrow> ds = [] \<or> \<not> is_dither frame_dt (timedelta_seconds margin_seconds) ds))"

text \<open>The frames collected for an exposure, in the order of the two nested loops.\<close>

definition collected ::
  "real GuidingSession list \<Rightarrow> DitherEvent list option \<Rightarrow> real \<Rightarrow> Exposure \<Rightarrow> real GuidingFrame list" where
  "collected sessions dither_events margin_seconds exposure =
     concat (map (\<lambda>session. filter (qualifies dither_events margin_seconds exposure session)
                               (frames session)) sessions)"

definition correlate_exposure ::
  "real GuidingSession list \<Rightarrow> DitherEvent list option \<Rightarrow> real \<Rightarrow> real \<Rightarrow> Exposure \<Rightarrow> Exposure" where
  "correlate_exposure sessions dither_events margin_seconds scale exposure =
     (let fs = collected sessions dither_events margin_seconds exposure;
          ra_values = map ra_raw fs;
          dec_values = map dec_raw fs
      in if ra_values \<noteq> [] then
           (let r = rms_px ra_values * scale; d = rms_px dec_values * scale
            in exposure\<lparr>ra_rms := Some r, dec_rms := Some d,
                          total_rms := Some (sqrt (r\<^sup>2 + d\<^sup>2)),
                          guiding_frames := length ra_values\<rparr>)
         else exposure)"

text \<open>The exposures are mutated in place; the model returns the list of the exposures
  after the call.\<close>

definition correlate_guiding_with_exposures ::
  "real GuidingSession list \<Rightarrow> Exposure list \<Rightarrow> DitherEvent list option \<Rightarrow> real \<Rightarrow> Exposure list" where
  "correlate_guiding_with_exposures sessions exposures dither_events margin_seconds =
     map (correlate_exposure sessions dither_events margin_seconds (first_pixel_scale sessions))
         exposures"

section \<open>Strings and patterns\<close>

text \<open>
  A line of a log is a \<open>string\<close>. The model covers ASCII text: the classes \<open>\d\<close>,
  \<open>\w\<close> and \<open>\s\<close> of \<open>re\<close> and the white space of \<open>str.strip\<close> are taken on the
  ASCII characters.
\<close>

definition ord :: "char \<Rightarrow> int" where
  "ord c = of_char c"

definition is_digit :: "char \<Rightarrow> bool" where
  "is_digit c = (48 \<le> ord c \<and> ord c \<le> 57)"

definition is_space :: "char \<Rightarrow> bool" where
  "is_space c = (ord c \<in> {9, 10, 11, 12, 13, 28, 29, 30, 31, 32})"

definition is_word :: "char \<Rightarrow> bool" where
  "is_word c =
     (let n = ord c
      in (48 \<le> n \<and> n \<le> 57) \<or> (65 \<le> n \<and> n \<le> 90) \<or> (97 \<le> n \<and> n \<le> 122) \<or> n = 95)"

text \<open>\<open>str.strip()\<close>, \<open>str.startswith\<close> and the substring test \<open>p in s\<close>.\<close>

definition strip :: "string \<Rightarrow> string" where
  "strip s = rev (dropWhile is_space (rev (dropWhile is_space s)))"

definition startswith :: "string \<Rightarrow> string \<Rightarrow> bool" where
  "startswith s p = (take (length p) s = p)"

fun contains :: "string \<Rightarrow> string \<Rightarrow> bool" where
  "contains [] p = (p = [])"
| "contains (x # xs) p = (startswith (x # xs) p \<or> contains xs p)"

text \<open>
  The patterns of the source are sequences of items: one character of a class, a class
  repeated (\<open>*\<close>, \<open>+\<close>, and the lazy \<open>+?\<close> with the \<open>*?\<close> it leaves after its first
  character), and the two ends of a capturing group. The classes are \<open>\d\<close>, \<open>[\d.]\<close>,
  \<open>[-\d.]\<close>, \<open>\w\<close>, \<open>\s\<close>, \<open>.\<close> (any character but the newline) and a literal
  character. No pattern of the source nests groups or repeats more than one character.
\<close>

datatype cls = Digit | DigitDot | SignDigitDot | Word | Space | AnyChar | Lit char

fun in_cls :: "cls \<Rightarrow> char \<Rightarrow> bool" where
  "in_cls Digit c = is_digit c"
| "in_cls DigitDot c = (is_digit c \<or> c = CHR ''.'')"
| "in_cls SignDigitDot c = (c = CHR ''-'' \<or> is_digit c \<or> c = CHR ''.'')"
| "in_cls Word c = is_word c"
| "in_cls Space c = is_space c"
| "in_cls AnyChar c = (c \<noteq> CHR 0x0A)"
| "in_cls (Lit a) c = (c = a)"

datatype item = One cls | Star cls | Plus cls | LazyStar cls | LazyPlus cls | GOpen | GClose

text \<open>
  The backtracking matcher. \<open>rmatch pat s cur caps\<close> matches \<open>pat\<close> at the start of \<open>s\<close>;
  \<open>cur\<close> is the text of the group that is open, \<open>caps\<close> the groups already closed. A greedy
  repetition first tries one more character and then the rest of the pattern, a lazy one the
  other way round, which is the order in which \<open>re\<close> explores, so that the match found is the
  one \<open>re\<close> finds. The result is the list of the groups, \<open>None\<close> when there is no match.
\<close>

definition push :: "char \<Rightarrow> string option \<Rightarrow> string option" where
  "push x cur = map_option (\<lambda>g. g @ [x]) cur"

fun rmatch :: "item list \<Rightarrow> string \<Rightarrow> string option \<Rightarrow> string list \<Rightarrow> string list option" where
  "rmatch [] s cur caps = Some caps"
| "rmatch (GOpen # r) s cur caps = rmatch r s (Some []) caps"
| "rmatch (GClose # r) s cur caps = rmatch r s None (caps @ [case cur of Some g \<Rightarrow> g | None \<Rightarrow> []])"
| "rmatch (One c # r) [] cur caps = None"
| "rmatch (One c # r) (x # xs) cur caps =
     (if in_cls c x then rmatch r xs (push x cur) caps else None)"
| "rmatch (Plus c # r) [] cur caps = None"
| "rmatch (Plus c # r) (x # xs) cur caps =
     (if in_cls c x then rmatch (Star c # r) xs (push x cur) caps else None)"
| "rmatch (LazyPlus c # r) [] cur caps = None"
| "rmatch (LazyPlus c # r) (x # xs) cur caps =
     (if in_cls c x then rmatch (LazyStar c # r) xs (push x cur) caps else None)"
| "rmatch (Star c # r) [] cur caps = rmatch r [] cur caps"
| "rmatch (Star c # r) (x # xs) cur caps =
     (if in_cls c x
      then (case rmatch (Star c # r) xs (push x cur) caps of
              Some res \<Rightarrow> Some res
            | None \<Rightarrow> rmatch r (x # xs) cur caps)
      else rmatch r (x # xs) cur caps)"
| "rmatch (LazyStar c # r) [] cur caps = rmatch r [] cur caps"
| "rmatch (LazyStar c # r) (x # xs) cur caps =
     (case rmatch r (x # xs) cur caps of
        Some res \<Rightarrow> Some res
      | None \<Rightarrow> (if in_cls c x then rmatch (LazyStar c # r) xs (push x cur) caps else None))"

text \<open>\<open>re.match\<close> matches at the start of the string, \<open>re.search\<close> at the first position
  from the left where the pattern matches.\<close>

definition re_match :: "item list \<Rightarrow> string \<Rightarrow> string list option" where
  "re_match pat s = rmatch pat s None []"

fun re_search :: "item list \<Rightarrow> string \<Rightarrow> string list option" where
  "re_search pat [] = re_match pat []"
| "re_search pat (x # xs) =
     (case re_match pat (x # xs) of Some caps \<Rightarrow> Some caps | None \<Rightarrow> re_search pat xs)"

text \<open>A literal text, and \<open>\d{n}\<close>.\<close>

definition lit :: "string \<Rightarrow> item list" where
  "lit s = map (\<lambda>c. One (Lit c)) s"

definition digits :: "nat \<Rightarrow> item list" where
  "digits n = replicate n (One Digit)"


section \<open>Numbers and dates\<close>

text \<open>The only exception that the parsers meet: the \<open>ValueError\<close> of \<open>float\<close> and of
  \<open>datetime.strptime\<close>.\<close>

datatype error = ValueError

text \<open>\<open>str.split(sep)\<close> with a separator of one character.\<close>

fun split_on :: "char \<Rightarrow> string \<Rightarrow> string \<Rightarrow> string list" where
  "split_on sep [] acc = [acc]"
| "split_on sep (x # xs) acc =
     (if x = sep then acc # split_on sep xs [] else split_on sep xs (acc @ [x]))"

definition split :: "string \<Rightarrow> char \<Rightarrow> string list" where
  "split s sep = split_on sep s []"

text \<open>\<open>int\<close> on a nonempty string of digits, as the groups \<open>(\d+)\<close> capture.\<close>

definition digit_val :: "char \<Rightarrow> int" where
  "digit_val c = ord c - 48"

definition int_digits :: "string \<Rightarrow> int" where
  "int_digits s = foldl (\<lambda>n c. 10 * n + digit_val c) 0 s"

text \<open>
  \<open>float\<close> on a string of digits, dots and minus signs, as the groups \<open>([\d.]+)\<close> and
  \<open>([-\d.]+)\<close> capture: an optional leading minus, digits with at most one dot, and at
  least one digit; anything else raises \<open>ValueError\<close>.
\<close>

definition float_decimal :: "string \<Rightarrow> error + real" where
  "float_decimal s =
     (let neg = (s \<noteq> [] \<and> hd s = CHR ''-'');
          body = (if neg then tl s else s);
          ip = takeWhile is_digit body;
          rest = dropWhile is_digit body;
          fp = (if rest \<noteq> [] \<and> hd rest = CHR ''.'' then tl rest else [])
      in if (rest = [] \<or> (hd rest = CHR ''.'' \<and> list_all is_digit (tl rest))) \<and> ip @ fp \<noteq> []
         then (let v = of_int (int_digits ip) + of_int (int_digits fp) / 10 ^ length fp
               in Inr (if neg then - v else v))
         else Inl ValueError)"

text \<open>
  The constructor of \<open>datetime\<close>: it raises \<open>ValueError\<close> outside the ranges of the fields,
  and gives the microseconds since 1970-01-01T00:00:00 otherwise (the days are counted in the
  proleptic Gregorian calendar).
\<close>

definition is_leap :: "int \<Rightarrow> bool" where
  "is_leap y = (y mod 4 = 0 \<and> (y mod 100 \<noteq> 0 \<or> y mod 400 = 0))"

definition days_in_month :: "int \<Rightarrow> int \<Rightarrow> int" where
  "days_in_month y m =
     (if m = 2 then (if is_leap y then 29 else 28)
      else if m = 4 \<or> m = 6 \<or> m = 9 \<or> m = 11 then 30 else 31)"

definition days_from_civil :: "int \<Rightarrow> int \<Rightarrow> int \<Rightarrow> int" where
  "days_from_civil y m d =
     (let y' = (if m \<le> 2 then y - 1 else y);
          era = y' div 400;
          yoe = y' - era * 400;
          mp = (if 2 < m then m - 3 else m + 9);
          doy = (153 * mp + 2) div 5 + d - 1;
          doe = yoe * 365 + yoe div 4 - yoe div 100 + doy
      in era * 146097 + doe - 719468)"

definition make_datetime :: "int \<Rightarrow> int \<Rightarrow> int \<Rightarrow> int \<Rightarrow> int \<Rightarrow> int \<Rightarrow> int \<Rightarrow> error + datetime" where
  "make_datetime y m d hh mm ss us =
     (if 1 \<le> y \<and> 1 \<le> m \<and> m \<le> 12 \<and> 1 \<le> d \<and> d \<le> days_in_month y m
         \<and> 0 \<le> hh \<and> hh \<le> 23 \<and> 0 \<le> mm \<and> mm \<le> 59 \<and> 0 \<le> ss \<and> ss \<le> 59
      then Inr ((((days_from_civil y m d * 24 + hh) * 60 + mm) * 60 + ss) * 1000000 + us)
      else Inl ValueError)"

section \<open>\<open>datetime.strptime\<close>\<close>

text \<open>
  \<open>strptime sep s\<close> is \<open>datetime.strptime(s, "%Y-%m-%d" + sep + "%H:%M:%S")\<close> and
  \<open>strptime_f s\<close> is \<open>datetime.strptime(s, "%Y-%m-%dT%H:%M:%S.%f")\<close>, on the strings the
  parsers pass: the text of a group with two-digit fields. \<open>%f\<close> takes one to six digits,
  padded with zeros on the right.
\<close>

definition dt_pat :: "string \<Rightarrow> item list" where
  "dt_pat sep = digits 4 @ lit ''-'' @ digits 2 @ lit ''-'' @ digits 2 @ lit sep
                @ digits 2 @ lit '':'' @ digits 2 @ lit '':'' @ digits 2"

definition strptime :: "string \<Rightarrow> string \<Rightarrow> error + datetime" where
  "strptime sep s =
     (if length s = 19 \<and> re_match (dt_pat sep) s \<noteq> None
      then make_datetime (int_digits (take 4 s)) (int_digits (take 2 (drop 5 s)))
             (int_digits (take 2 (drop 8 s))) (int_digits (take 2 (drop 11 s)))
             (int_digits (take 2 (drop 14 s))) (int_digits (take 2 (drop 17 s))) 0
      else Inl ValueError)"

definition strptime_f :: "string \<Rightarrow> error + datetime" where
  "strptime_f s =
     (let frac = drop 20 s
      in if 21 \<le> length s \<and> length s \<le> 26
            \<and> re_match (dt_pat ''T'' @ lit ''.'') (take 20 s) \<noteq> None \<and> list_all is_digit frac
         then make_datetime (int_digits (take 4 s)) (int_digits (take 2 (drop 5 s)))
                (int_digits (take 2 (drop 8 s))) (int_digits (take 2 (drop 11 s)))
                (int_digits (take 2 (drop 14 s))) (int_digits (take 2 (drop 17 s)))
                (int_digits (frac @ replicate (6 - length frac) CHR ''0''))
         else Inl ValueError)"

section \<open>\<open>PHD2Parser\<close>\<close>

record 'f PHD2Parser =
  sessions :: "'f GuidingSession list"
  log_date :: "datetime option"

definition PHD2Parser_init :: "'f PHD2Parser" where
  "PHD2Parser_init = \<lparr>sessions = [], log_date = None\<rparr>"

text \<open>\<open>GuidingSession(start_time=t)\<close>, the other fields at their defaults.\<close>

definition new_session :: "datetime \<Rightarrow> 'f GuidingSession" where
  "new_session t =
     \<lparr>start_time = t, end_time = None, equipment_profile = [], pixel_scale = 0,
      focal_length = 0, ra = 0, dec = 0, hour_angle = 0, pier_side = [], altitude = 0,
      azimuth = 0, frames = []\<rparr>"

text \<open>The patterns of \<open>PHD2Parser.parse\<close>.\<close>

definition re_log_enabled :: "item list" where
  "re_log_enabled = lit ''Log enabled at '' @ [GOpen] @ dt_pat '' '' @ [GClose]"

definition re_begins :: "item list" where
  "re_begins = lit ''Guiding Begins at '' @ [GOpen] @ dt_pat '' '' @ [GClose]"

definition re_ends :: "item list" where
  "re_ends = lit ''Guiding Ends at '' @ [GOpen] @ dt_pat '' '' @ [GClose]"

definition re_profile :: "item list" where
  "re_profile = lit ''Equipment Profile = '' @ [GOpen, Plus AnyChar, GClose]"

definition re_pixel_scale :: "item list" where
  "re_pixel_scale = lit ''Pixel scale = '' @ [GOpen, Plus DigitDot, GClose, Star AnyChar]
                    @ lit ''Focal length = '' @ [GOpen, Plus Digit, GClose]"

definition re_pointing :: "item list" where
  "re_pointing = lit ''RA = '' @ [GOpen, Plus DigitDot, GClose]
     @ lit '' hr, Dec = '' @ [GOpen, Plus SignDigitDot, GClose]
     @ lit '' deg, Hour angle = '' @ [GOpen, Plus SignDigitDot, GClose]
     @ lit '' hr, Pier side = '' @ [GOpen, Plus Word, GClose, Star AnyChar]
     @ lit ''Alt = '' @ [GOpen, Plus DigitDot, GClose]
     @ lit '' deg, Az = '' @ [GOpen, Plus DigitDot, GClose] @ lit '' deg''"

definition re_frame :: "item list" where
  "re_frame = [Plus Digit, One (Lit CHR '','')]"

text \<open>
  \<open>PHD2Parser._parse_frame\<close>. The fields of a frame line are arbitrary text, so the two
  conversions \<open>float\<close> and \<open>int\<close> of Python are parameters of the model: \<open>to_float\<close> and
  \<open>to_int\<close> give \<open>None\<close> where the conversion raises \<open>ValueError\<close>, which the function
  catches. The conversions of Python themselves are \<open>py_float\<close> and \<open>py_int\<close> below; with
  them the frames are over \<open>pyfloat\<close>, and a field \<open>nan\<close> or \<open>inf\<close> gives a frame with that
  value. The theorems that do not name a conversion hold for every pair of conversions.
\<close>

definition or_default :: "(string \<Rightarrow> 'a option) \<Rightarrow> 'a \<Rightarrow> string \<Rightarrow> 'a option" where
  "or_default conv dflt s = (if s \<noteq> [] then conv s else Some dflt)"

definition parse_frame ::
  "(string \<Rightarrow> 'f::zero option) \<Rightarrow> (string \<Rightarrow> int option) \<Rightarrow> string \<Rightarrow>
   'f GuidingFrame option" where
  "parse_frame to_float to_int line =
     (let parts = split line CHR '',''
      in if length parts < 18 then None
         else do {
           v_frame \<leftarrow> to_int (parts ! 0);
           v_time \<leftarrow> to_float (parts ! 1);
           v_dx \<leftarrow> to_float (parts ! 3);
           v_dy \<leftarrow> to_float (parts ! 4);
           v_ra_raw \<leftarrow> to_float (parts ! 5);
           v_dec_raw \<leftarrow> to_float (parts ! 6);
           v_ra_guide \<leftarrow> to_float (parts ! 7);
           v_dec_guide \<leftarrow> to_float (parts ! 8);
           v_ra_duration \<leftarrow> or_default to_int 0 (parts ! 9);
           v_dec_duration \<leftarrow> or_default to_int 0 (parts ! 11);
           v_star_mass \<leftarrow> or_default to_float 0 (parts ! 15);
           v_snr \<leftarrow> or_default to_float 0 (parts ! 16);
           v_error_code \<leftarrow> or_default to_int 0 (parts ! 17);
           Some \<lparr>frame = v_frame, time = v_time, dx = v_dx, dy = v_dy, ra_raw = v_ra_raw,
                 dec_raw = v_dec_raw, ra_guide = v_ra_guide, dec_guide = v_dec_guide,
                 ra_duration = v_ra_duration, dec_duration = v_dec_duration,
                 ra_direction = parts ! 10, dec_direction = parts ! 12,
                 star_mass = v_star_mass, snr = v_snr, error_code = v_error_code\<rparr>
         })"

text \<open>
  One iteration of the loop of \<open>PHD2Parser.parse\<close>, on a stripped line. The state is the
  parser and the local variable \<open>current_session\<close>. An exception leaves the loop; the line
  that raises has not changed the parser before it raises.
\<close>

type_synonym 'f phd2_state = "'f PHD2Parser \<times> 'f GuidingSession option"

definition phd2_line ::
  "(string \<Rightarrow> 'f::zero option) \<Rightarrow> (string \<Rightarrow> int option) \<Rightarrow> string \<Rightarrow> 'f phd2_state \<Rightarrow>
   error + 'f phd2_state" where
  "phd2_line to_float to_int line st =
     (case st of (p, current_session) \<Rightarrow>
      if startswith line ''PHD2 version'' then
        (case re_search re_log_enabled line of
           Some [g] \<Rightarrow>
             (case strptime '' '' g of
                Inl e \<Rightarrow> Inl e
              | Inr d \<Rightarrow> Inr (p\<lparr>log_date := Some d\<rparr>, current_session))
         | _ \<Rightarrow> Inr st)
      else if startswith line ''Guiding Begins at'' then
        (case re_search re_begins line of
           Some [g] \<Rightarrow>
             (case strptime '' '' g of
                Inl e \<Rightarrow> Inl e
              | Inr d \<Rightarrow> Inr (p, Some (new_session d)))
         | _ \<Rightarrow> Inr st)
      else if startswith line ''Equipment Profile'' \<and> current_session \<noteq> None then
        (case re_search re_profile line of
           Some [g] \<Rightarrow> Inr (p, map_option (\<lambda>s. s\<lparr>equipment_profile := g\<rparr>) current_session)
         | _ \<Rightarrow> Inr st)
      else if startswith line ''Pixel scale'' \<and> current_session \<noteq> None then
        (case re_search re_pixel_scale line of
           Some [g1, g2] \<Rightarrow>
             (case float_decimal g1 of
                Inl e \<Rightarrow> Inl e
              | Inr v \<Rightarrow>
                  Inr (p, map_option (\<lambda>s. s\<lparr>pixel_scale := v, focal_length := int_digits g2\<rparr>)
                             current_session))
         | _ \<Rightarrow> Inr st)
      else if startswith line ''RA ='' \<and> current_session \<noteq> None then
        (case re_search re_pointing line of
           Some [g1, g2, g3, g4, g5, g6] \<Rightarrow>
             (case (float_decimal g1, float_decimal g2, float_decimal g3,
                    float_decimal g5, float_decimal g6) of
                (Inr v1, Inr v2, Inr v3, Inr v5, Inr v6) \<Rightarrow>
                  Inr (p, map_option (\<lambda>s. s\<lparr>ra := v1, dec := v2, hour_angle := v3,
                                             pier_side := g4, altitude := v5, azimuth := v6\<rparr>)
                             current_session)
              | _ \<Rightarrow> Inl ValueError)
         | _ \<Rightarrow> Inr st)
      else if current_session \<noteq> None \<and> re_match re_frame line \<noteq> None then
        (case parse_frame to_float to_int line of
           Some f \<Rightarrow> Inr (p, map_option (\<lambda>s. s\<lparr>frames := frames s @ [f]\<rparr>) current_session)
         | None \<Rightarrow> Inr st)
      else if startswith line ''Guiding Ends at'' then
        (case (re_search re_ends line, current_session) of
           (Some [g], Some s) \<Rightarrow>
             (case strptime '' '' g of
                Inl e \<Rightarrow> Inl e
              | Inr d \<Rightarrow> Inr (p\<lparr>sessions := sessions p @ [s\<lparr>end_time := Some d\<rparr>]\<rparr>, None))
         | _ \<Rightarrow> Inr st)
      else Inr st)"

text \<open>The loop over the lines of the file. The result is the state when the loop ends and the
  exception that ended it, if any.\<close>

fun phd2_loop ::
  "(string \<Rightarrow> 'f::zero option) \<Rightarrow> (string \<Rightarrow> int option) \<Rightarrow> string list \<Rightarrow>
   'f phd2_state \<Rightarrow> 'f phd2_state \<times> error option" where
  "phd2_loop to_float to_int [] st = (st, None)"
| "phd2_loop to_float to_int (line # rest) st =
     (case phd2_line to_float to_int (strip line) st of
        Inl e \<Rightarrow> (st, Some e)
      | Inr st' \<Rightarrow> phd2_loop to_float to_int rest st')"

text \<open>\<open>PHD2Parser.parse\<close>: the parser is mutated in place, so the caller sees its state also
  when the call raises. The file is given by its lines.\<close>

definition PHD2Parser_parse ::
  "(string \<Rightarrow> 'f::zero option) \<Rightarrow> (string \<Rightarrow> int option) \<Rightarrow> 'f PHD2Parser \<Rightarrow>
   string list \<Rightarrow> 'f PHD2Parser \<times> error option" where
  "PHD2Parser_parse to_float to_int p lines =
     (case phd2_loop to_float to_int lines (p\<lparr>sessions := []\<rparr>, None) of
        ((p', current_session), err) \<Rightarrow> (p', err))"


section \<open>\<open>NINAParser\<close>\<close>

record NINAParser =
  autofocus_runs :: "AutofocusRun list"
  exposures :: "Exposure list"
  filter_changes :: "FilterChange list"
  meridian_flips :: "MeridianFlip list"
  rms_alerts :: "RMSAlert list"
  dither_events :: "DitherEvent list"
  target_name :: string
  session_start :: "datetime option"
  session_end :: "datetime option"
  current_filter :: string
  current_pier_side :: string
  pending_af :: "AutofocusRun option"
  pending_exposure :: "Exposure option"
  pending_dither :: "DitherEvent option"
  last_hfr :: "real option"
  last_stars :: "int option"

definition NINAParser_init :: NINAParser where
  "NINAParser_init =
     \<lparr>autofocus_runs = [], exposures = [], filter_changes = [], meridian_flips = [],
      rms_alerts = [], dither_events = [], target_name = [], session_start = None,
      session_end = None, current_filter = [], current_pier_side = [], pending_af = None,
      pending_exposure = None, pending_dither = None, last_hfr = None, last_stars = None\<rparr>"

text \<open>
  \<open>NINAParser._parse_timestamp\<close>: \<open>None\<close> when the line does not start with a timestamp
  that has a fractional part.
\<close>

definition re_timestamp :: "item list" where
  "re_timestamp = [GOpen] @ dt_pat ''T'' @ lit ''.'' @ [Plus Digit, GClose]"

definition parse_timestamp :: "string \<Rightarrow> error + datetime option" where
  "parse_timestamp line =
     (case re_match re_timestamp line of
        Some [g] \<Rightarrow>
          (let ts_str = take 23 g
           in case strptime_f ts_str of
                Inr d \<Rightarrow> Inr (Some d)
              | Inl ValueError \<Rightarrow>
                  (case strptime ''T'' (take 19 ts_str) of
                     Inr d \<Rightarrow> Inr (Some d)
                   | Inl e \<Rightarrow> Inl e))
      | _ \<Rightarrow> Inr None)"

text \<open>The patterns of \<open>NINAParser._parse_line\<close>.\<close>

definition re_target :: "item list" where
  "re_target = lit ''Target:'' @ [Star Space, GOpen, LazyPlus AnyChar, GClose, Plus Space]
               @ lit ''RA:''"

definition re_initial_position :: "item list" where
  "re_initial_position = lit ''initial position '' @ [GOpen, Plus Digit, GClose]"

definition re_trigger :: "item list" where
  "re_trigger = lit ''Trigger: '' @ [GOpen] @ lit ''AutofocusAfter'' @ [Plus Word, GClose]"

definition re_temperature :: "item list" where
  "re_temperature = lit ''Temperature '' @ [GOpen, Plus DigitDot, GClose]"

definition re_ending_at :: "item list" where
  "re_ending_at = lit ''ending at '' @ [GOpen, Plus Digit, GClose]"

definition re_hfr :: "item list" where
  "re_hfr = lit ''Average HFR: '' @ [GOpen, Plus DigitDot, GClose, Star AnyChar]
            @ lit ''Detected Stars '' @ [GOpen, Plus Digit, GClose]"

definition re_filter :: "item list" where
  "re_filter = lit ''Moving to Filter '' @ [GOpen, Plus Word, GClose]
               @ lit '' at Position '' @ [GOpen, Plus Digit, GClose]"

definition re_exposure :: "item list" where
  "re_exposure = lit ''Exposure Time: '' @ [GOpen, Plus DigitDot, GClose]
     @ lit ''s; Filter: '' @ [GOpen, Star Word, GClose]
     @ lit ''; Gain: '' @ [GOpen, Plus Digit, GClose]
     @ lit ''; Offset '' @ [GOpen, Plus Digit, GClose]
     @ lit ''; Binning: '' @ [GOpen, Plus Digit, One (Lit CHR ''x''), Plus Digit, GClose]"

definition re_saved :: "item list" where
  "re_saved = lit ''Saved image to '' @ [GOpen, Plus AnyChar] @ lit ''.fits'' @ [GClose]"

definition re_pier :: "item list" where
  "re_pier = lit ''pier side pier'' @ [GOpen, Plus Word, GClose]"

definition re_rms :: "item list" where
  "re_rms = lit ''Total RMS above threshold ('' @ [GOpen, Plus DigitDot, GClose]
            @ lit '' / '' @ [GOpen, Plus DigitDot, GClose] @ lit '')''"

text \<open>
  \<open>NINAParser._parse_line\<close> is a sequence of independent \<open>if\<close> blocks. Each block is a step
  from the parser to the parser after the block and the exception the block raised, if any:
  the parser is mutated in place, so what a block has assigned before it raises stays.
\<close>

type_synonym nina_step = "NINAParser \<Rightarrow> NINAParser \<times> error option"

definition session_bounds :: "datetime \<Rightarrow> nina_step" where
  "session_bounds ts p =
     ((if session_start p = None then p\<lparr>session_start := Some ts\<rparr> else p)
        \<lparr>session_end := Some ts\<rparr>, None)"

definition target_step :: "string \<Rightarrow> nina_step" where
  "target_step line p =
     (if contains line ''DeepSkyObjectContainer'' \<and> contains line ''Target:'' then
        (case re_search re_target line of
           Some [g] \<Rightarrow> (p\<lparr>target_name := strip g\<rparr>, None)
         | _ \<Rightarrow> (p, None))
      else (p, None))"

definition autofocus_start :: "datetime \<Rightarrow> string \<Rightarrow> nina_step" where
  "autofocus_start ts line p =
     (if contains line ''RunAutofocus'' \<and> contains line ''Starting'' then
        (p\<lparr>pending_af := Some \<lparr>af_timestamp = ts, af_trigger = [],
              af_filter_name = current_filter p, af_initial_position = 0,
              af_final_position = 0, af_final_hfr = 0, af_temperature = None\<rparr>\<rparr>, None)
      else (p, None))"

definition autofocus_initial_position :: "string \<Rightarrow> nina_step" where
  "autofocus_initial_position line p =
     (if contains line ''Starting AutoFocus with initial position'' \<and> pending_af p \<noteq> None then
        (case re_search re_initial_position line of
           Some [g] \<Rightarrow>
             (p\<lparr>pending_af := map_option (\<lambda>a. a\<lparr>af_initial_position := int_digits g\<rparr>)
                                (pending_af p)\<rparr>, None)
         | _ \<Rightarrow> (p, None))
      else (p, None))"

definition autofocus_trigger :: "string \<Rightarrow> nina_step" where
  "autofocus_trigger line p =
     (if contains line ''AutofocusAfter'' \<and> contains line ''Starting Trigger'' then
        (case (re_search re_trigger line, pending_af p) of
           (Some [g], Some a) \<Rightarrow> (p\<lparr>pending_af := Some (a\<lparr>af_trigger := g\<rparr>)\<rparr>, None)
         | _ \<Rightarrow> (p, None))
      else (p, None))"

definition autofocus_temperature :: "string \<Rightarrow> nina_step" where
  "autofocus_temperature line p =
     (if contains line ''BroadcastSuccessfulAutoFocusRun'' then
        (case (re_search re_temperature line, pending_af p) of
           (Some [g], Some a) \<Rightarrow>
             (case float_decimal g of
                Inl e \<Rightarrow> (p, Some e)
              | Inr v \<Rightarrow> (p\<lparr>pending_af := Some (a\<lparr>af_temperature := Some v\<rparr>)\<rparr>, None))
         | _ \<Rightarrow> (p, None))
      else (p, None))"

text \<open>The truth value of an optional number: \<open>None\<close> and zero are false.\<close>

definition truthy :: "'a::zero option \<Rightarrow> bool" where
  "truthy v = (case v of None \<Rightarrow> False | Some x \<Rightarrow> x \<noteq> 0)"

definition autofocus_completed :: "string \<Rightarrow> nina_step" where
  "autofocus_completed line p =
     (if contains line ''AutoFocus completed'' then
        (case (pending_af p, re_search re_ending_at line) of
           (Some a, Some [g]) \<Rightarrow>
             (let a1 = a\<lparr>af_final_position := int_digits g\<rparr>;
                  a2 = (case last_hfr p of
                          Some h \<Rightarrow> if h \<noteq> 0 then a1\<lparr>af_final_hfr := h\<rparr> else a1
                        | None \<Rightarrow> a1)
              in (p\<lparr>autofocus_runs := autofocus_runs p @ [a2], pending_af := None\<rparr>, None))
         | _ \<Rightarrow> (p, None))
      else (p, None))"

definition star_detection :: "string \<Rightarrow> nina_step" where
  "star_detection line p =
     (if contains line ''HocusFocusStarDetection'' \<and> contains line ''Average HFR:'' then
        (case re_search re_hfr line of
           Some [g1, g2] \<Rightarrow>
             (case float_decimal g1 of
                Inl e \<Rightarrow> (p, Some e)
              | Inr v \<Rightarrow> (p\<lparr>last_hfr := Some v, last_stars := Some (int_digits g2)\<rparr>, None))
         | _ \<Rightarrow> (p, None))
      else (p, None))"

definition filter_change :: "datetime \<Rightarrow> string \<Rightarrow> nina_step" where
  "filter_change ts line p =
     (if contains line ''FilterWheelVM'' \<and> contains line ''Moving to Filter'' then
        (case re_search re_filter line of
           Some [g1, g2] \<Rightarrow>
             (p\<lparr>filter_changes := filter_changes p
                   @ [\<lparr>fc_timestamp = ts, fc_filter_name = g1, fc_position = int_digits g2\<rparr>],
                 current_filter := g1\<rparr>, None)
         | _ \<Rightarrow> (p, None))
      else (p, None))"

definition exposure_start :: "datetime \<Rightarrow> string \<Rightarrow> nina_step" where
  "exposure_start ts line p =
     (if contains line ''CameraVM'' \<and> contains line ''Starting Exposure'' then
        (case re_search re_exposure line of
           Some [g1, g2, g3, g4, g5] \<Rightarrow>
             (let fname = (if g2 \<noteq> [] then g2 else current_filter p);
                  p1 = (if fname \<noteq> [] then p\<lparr>current_filter := fname\<rparr> else p)
              in case float_decimal g1 of
                   Inl e \<Rightarrow> (p1, Some e)
                 | Inr v \<Rightarrow>
                     (p1\<lparr>pending_exposure := Some
                           \<lparr>timestamp = ts, exposure_time = v, filter_name = fname,
                            gain = int_digits g3, offset = int_digits g4, binning = g5,
                            image_type = ''LIGHT'', hfr = None, stars_detected = None,
                            saved_path = None, ra_rms = None, dec_rms = None,
                            total_rms = None, guiding_frames = 0\<rparr>\<rparr>, None))
         | _ \<Rightarrow> (p, None))
      else (p, None))"

definition image_saved :: "string \<Rightarrow> nina_step" where
  "image_saved line p =
     (if contains line ''SaveToDisk'' \<and> contains line ''LIGHT'' then
        (case (re_search re_saved line, pending_exposure p) of
           (Some [g], Some e) \<Rightarrow>
             (let e1 = e\<lparr>saved_path := Some g\<rparr>;
                  e2 = (if truthy (last_hfr p) then e1\<lparr>hfr := last_hfr p\<rparr> else e1);
                  e3 = (if truthy (last_stars p) then e2\<lparr>stars_detected := last_stars p\<rparr> else e2)
              in (p\<lparr>exposures := exposures p @ [e3], pending_exposure := None\<rparr>, None))
         | _ \<Rightarrow> (p, None))
      else (p, None))"

definition pier_side_step :: "datetime \<Rightarrow> string \<Rightarrow> nina_step" where
  "pier_side_step ts line p =
     (if contains line ''MeridianFlipTrigger'' \<and> contains line ''pier side'' then
        (case re_search re_pier line of
           Some [g] \<Rightarrow>
             ((if current_pier_side p \<noteq> [] \<and> current_pier_side p \<noteq> g
               then p\<lparr>meridian_flips := meridian_flips p
                        @ [\<lparr>mf_timestamp = ts, mf_from_pier_side = current_pier_side p,
                            mf_to_pier_side = g\<rparr>]\<rparr>
               else p)\<lparr>current_pier_side := g\<rparr>, None)
         | _ \<Rightarrow> (p, None))
      else (p, None))"

definition rms_alert :: "datetime \<Rightarrow> string \<Rightarrow> nina_step" where
  "rms_alert ts line p =
     (if contains line ''InterruptWhenRMSAbove'' \<and> contains line ''Total RMS above threshold'' then
        (case re_search re_rms line of
           Some [g1, g2] \<Rightarrow>
             (case (float_decimal g1, float_decimal g2) of
                (Inr v1, Inr v2) \<Rightarrow>
                  (p\<lparr>rms_alerts := rms_alerts p
                        @ [\<lparr>alert_timestamp = ts, alert_total_rms = v1, alert_ra_rms = 0,
                            alert_dec_rms = 0, alert_threshold = v2\<rparr>]\<rparr>, None)
              | _ \<Rightarrow> (p, Some ValueError))
         | _ \<Rightarrow> (p, None))
      else (p, None))"

text \<open>The conditions of the two dither blocks.\<close>

definition dither_start_marker :: "string \<Rightarrow> bool" where
  "dither_start_marker line =
     (contains line ''SequenceItem'' \<and> contains line ''Starting'' \<and> contains line ''Item: Dither'')"

definition dither_finish_marker :: "string \<Rightarrow> bool" where
  "dither_finish_marker line =
     (contains line ''SequenceItem'' \<and> contains line ''Finishing'' \<and> contains line ''Item: Dither'')"

definition dither_start :: "datetime \<Rightarrow> string \<Rightarrow> nina_step" where
  "dither_start ts line p =
     (if dither_start_marker line
      then (p\<lparr>pending_dither := Some \<lparr>dither_start_time = ts, dither_end_time = None\<rparr>\<rparr>, None)
      else (p, None))"

definition dither_end :: "datetime \<Rightarrow> string \<Rightarrow> nina_step" where
  "dither_end ts line p =
     (if dither_finish_marker line
      then (case pending_dither p of
              Some d \<Rightarrow>
                (p\<lparr>dither_events := dither_events p @ [d\<lparr>dither_end_time := Some ts\<rparr>],
                    pending_dither := None\<rparr>, None)
            | None \<Rightarrow> (p, None))
      else (p, None))"

text \<open>The blocks in the order of the source; an exception ends the line.\<close>

fun run_steps :: "nina_step list \<Rightarrow> nina_step" where
  "run_steps [] p = (p, None)"
| "run_steps (f # fs) p = (case f p of (p', None) \<Rightarrow> run_steps fs p' | (p', Some e) \<Rightarrow> (p', Some e))"

definition line_steps :: "datetime \<Rightarrow> string \<Rightarrow> nina_step list" where
  "line_steps ts line =
     [session_bounds ts, target_step line, autofocus_start ts line,
      autofocus_initial_position line, autofocus_trigger line, autofocus_temperature line,
      autofocus_completed line, star_detection line, filter_change ts line,
      exposure_start ts line, image_saved line, pier_side_step ts line, rms_alert ts line,
      dither_start ts line, dither_end ts line]"

definition parse_line :: "string \<Rightarrow> nina_step" where
  "parse_line line p =
     (case parse_timestamp line of
        Inl e \<Rightarrow> (p, Some e)
      | Inr None \<Rightarrow> (p, None)
      | Inr (Some ts) \<Rightarrow> run_steps (line_steps ts line) p)"

text \<open>The loop of \<open>NINAParser.parse\<close> over the lines of the file.\<close>

fun nina_loop :: "string list \<Rightarrow> nina_step" where
  "nina_loop [] p = (p, None)"
| "nina_loop (line # rest) p =
     (case parse_line (strip line) p of
        (p', None) \<Rightarrow> nina_loop rest p'
      | (p', Some e) \<Rightarrow> (p', Some e))"

text \<open>\<open>NINAParser.parse\<close>: the five assignments before the loop, then the loop. The result
  is the parser after the call and the exception that ended it, if any.\<close>

definition NINAParser_parse :: "NINAParser \<Rightarrow> string list \<Rightarrow> NINAParser \<times> error option" where
  "NINAParser_parse p lines =
     nina_loop lines (p\<lparr>autofocus_runs := [], exposures := [], filter_changes := [],
                        meridian_flips := [], rms_alerts := []\<rparr>)"


section \<open>Floating-point values\<close>

text \<open>
  A double with its range: a finite value, one of the two infinities, or \<open>nan\<close>. Rounding
  is not modelled (a finite result is the exact real); the range is: a result beyond the
  largest double is an infinity where the source computes with \<open>numpy\<close> or with \<open>*\<close>, and
  the \<open>OverflowError\<close> of Python where the source computes with \<open>**\<close>.
\<close>

datatype pyfloat = Fin real | PInf | NInf | NaN

text \<open>The default \<open>0.0\<close> of an empty field of a frame line.\<close>

instantiation pyfloat :: zero
begin

definition zero_pyfloat :: pyfloat where
  "zero_pyfloat = Fin 0"

instance ..

end

datatype arith_error = OverflowError

text \<open>The largest finite double, \<open>(2 - 1 / 2 ^ 52) * 2 ^ 1023\<close>, written out.\<close>

definition float_max :: real where
  "float_max =
     179769313486231570814527423731704356798070567525844996598917476803157260780028538760589558632766878171540458953514382464234321326889464182768467546703537516986049910576551282076245490090389328944075868508455133942304583236903222948165808559332123348274797826204144723168738177180919299881250404026184124858368"

text \<open>The double of a real result: a value out of the range is an infinity.\<close>

definition fl :: "real \<Rightarrow> pyfloat" where
  "fl x = (if float_max < x then PInf else if x < - float_max then NInf else Fin x)"

text \<open>Addition and multiplication of doubles, as \<open>numpy\<close> and the operator \<open>*\<close> of Python
  compute them: \<open>nan\<close> is absorbing, \<open>inf - inf\<close> and \<open>0 * inf\<close> are \<open>nan\<close>, and nothing
  raises.\<close>

fun fl_add :: "pyfloat \<Rightarrow> pyfloat \<Rightarrow> pyfloat" where
  "fl_add NaN y = NaN"
| "fl_add x NaN = NaN"
| "fl_add (Fin a) (Fin b) = fl (a + b)"
| "fl_add PInf NInf = NaN"
| "fl_add NInf PInf = NaN"
| "fl_add PInf y = PInf"
| "fl_add x PInf = PInf"
| "fl_add NInf y = NInf"
| "fl_add x NInf = NInf"

definition signed_inf :: "bool \<Rightarrow> pyfloat" where
  "signed_inf positive = (if positive then PInf else NInf)"

fun fl_mul :: "pyfloat \<Rightarrow> pyfloat \<Rightarrow> pyfloat" where
  "fl_mul NaN y = NaN"
| "fl_mul x NaN = NaN"
| "fl_mul (Fin a) (Fin b) = fl (a * b)"
| "fl_mul (Fin a) PInf = (if a = 0 then NaN else signed_inf (0 < a))"
| "fl_mul (Fin a) NInf = (if a = 0 then NaN else signed_inf (a < 0))"
| "fl_mul PInf (Fin b) = (if b = 0 then NaN else signed_inf (0 < b))"
| "fl_mul NInf (Fin b) = (if b = 0 then NaN else signed_inf (b < 0))"
| "fl_mul PInf PInf = PInf"
| "fl_mul NInf NInf = PInf"
| "fl_mul PInf NInf = NInf"
| "fl_mul NInf PInf = NInf"

text \<open>The division of \<open>np.mean\<close> by the number of values, and \<open>np.sqrt\<close>.\<close>

fun fl_div_n :: "pyfloat \<Rightarrow> nat \<Rightarrow> pyfloat" where
  "fl_div_n (Fin a) n = (if n = 0 then NaN else Fin (a / of_nat n))"
| "fl_div_n x n = x"

fun fl_sqrt :: "pyfloat \<Rightarrow> pyfloat" where
  "fl_sqrt (Fin a) = (if a < 0 then NaN else Fin (sqrt a))"
| "fl_sqrt PInf = PInf"
| "fl_sqrt NInf = NaN"
| "fl_sqrt NaN = NaN"

text \<open>\<open>x**2\<close> on a Python \<open>float\<close>: a finite \<open>x\<close> whose square is out of the range raises
  \<open>OverflowError\<close>.\<close>

fun fl_pow2 :: "pyfloat \<Rightarrow> arith_error + pyfloat" where
  "fl_pow2 (Fin a) = (if float_max < a * a then Inl OverflowError else Inr (Fin (a * a)))"
| "fl_pow2 PInf = Inr PInf"
| "fl_pow2 NInf = Inr PInf"
| "fl_pow2 NaN = Inr NaN"

text \<open>The comparisons \<open>x >= 0\<close> and \<open>x == y\<close>: every comparison with \<open>nan\<close> is false.\<close>

fun fl_ge0 :: "pyfloat \<Rightarrow> bool" where
  "fl_ge0 (Fin a) = (0 \<le> a)"
| "fl_ge0 PInf = True"
| "fl_ge0 NInf = False"
| "fl_ge0 NaN = False"

fun fl_eq :: "pyfloat \<Rightarrow> pyfloat \<Rightarrow> bool" where
  "fl_eq NaN y = False"
| "fl_eq x NaN = False"
| "fl_eq x y = (x = y)"

text \<open>\<open>float(np.sqrt(np.mean(np.square(values))))\<close> and
  \<open>float(np.sqrt(a**2 + b**2))\<close> on doubles.\<close>

definition py_rms :: "pyfloat list \<Rightarrow> pyfloat" where
  "py_rms vs = fl_sqrt (fl_div_n (foldl fl_add (Fin 0) (map (\<lambda>v. fl_mul v v) vs)) (length vs))"

definition py_total :: "pyfloat \<Rightarrow> pyfloat \<Rightarrow> arith_error + pyfloat" where
  "py_total r d =
     (case fl_pow2 r of
        Inl e \<Rightarrow> Inl e
      | Inr a \<Rightarrow> (case fl_pow2 d of Inl e \<Rightarrow> Inl e | Inr b \<Rightarrow> Inr (fl_sqrt (fl_add a b))))"

text \<open>
  The properties \<open>ra_rms\<close>, \<open>dec_rms\<close> and \<open>total_rms\<close> of \<open>GuidingSession\<close> on the frames as
  \<open>_parse_frame\<close> builds them. The pixel scale is the double of the number that the
  session holds: an infinity when the digits of the log are out of the range.
\<close>

definition py_session_ra_rms :: "pyfloat GuidingSession \<Rightarrow> pyfloat" where
  "py_session_ra_rms s =
     (if frames s = [] then Fin 0
      else (let r = py_rms (map ra_raw (frames s))
            in if pixel_scale s \<noteq> 0 then fl_mul r (fl (pixel_scale s)) else r))"

definition py_session_dec_rms :: "pyfloat GuidingSession \<Rightarrow> pyfloat" where
  "py_session_dec_rms s =
     (if frames s = [] then Fin 0
      else (let r = py_rms (map dec_raw (frames s))
            in if pixel_scale s \<noteq> 0 then fl_mul r (fl (pixel_scale s)) else r))"

definition py_session_total_rms :: "pyfloat GuidingSession \<Rightarrow> arith_error + pyfloat" where
  "py_session_total_rms s =
     (if frames s = [] then Inr (Fin 0)
      else py_total (py_session_ra_rms s) (py_session_dec_rms s))"

text \<open>
  The three statements that \<open>get_rms_over_time\<close> (for a bucket), \<open>get_overall_rms\<close> and
  \<open>correlate_guiding_with_exposures\<close> (for an exposure) run on a nonempty list of frames and
  a pixel scale: the RMS of the two raw columns times the scale, and their total.
\<close>

definition py_stats ::
  "real \<Rightarrow> pyfloat GuidingFrame list \<Rightarrow> arith_error + pyfloat \<times> pyfloat \<times> pyfloat" where
  "py_stats scale fs =
     (let r = fl_mul (py_rms (map ra_raw fs)) (fl scale);
          d = fl_mul (py_rms (map dec_raw fs)) (fl scale)
      in case py_total r d of Inl e \<Rightarrow> Inl e | Inr t \<Rightarrow> Inr (r, d, t))"

text \<open>The frame and the session of finite doubles that a frame and a session over the reals
  stand for.\<close>

definition fin_frame :: "real GuidingFrame \<Rightarrow> pyfloat GuidingFrame" where
  "fin_frame f =
     \<lparr>frame = frame f, time = Fin (time f), dx = Fin (dx f), dy = Fin (dy f),
      ra_raw = Fin (ra_raw f), dec_raw = Fin (dec_raw f), ra_guide = Fin (ra_guide f),
      dec_guide = Fin (dec_guide f), ra_duration = ra_duration f,
      dec_duration = dec_duration f, ra_direction = ra_direction f,
      dec_direction = dec_direction f, star_mass = Fin (star_mass f), snr = Fin (snr f),
      error_code = error_code f\<rparr>"

definition fin_session :: "real GuidingSession \<Rightarrow> pyfloat GuidingSession" where
  "fin_session s =
     \<lparr>start_time = start_time s, end_time = end_time s,
      equipment_profile = equipment_profile s, pixel_scale = pixel_scale s,
      focal_length = focal_length s, ra = ra s, dec = dec s, hour_angle = hour_angle s,
      pier_side = pier_side s, altitude = altitude s, azimuth = azimuth s,
      frames = map fin_frame (frames s)\<rparr>"

section \<open>\<open>float\<close> and \<open>int\<close> on text\<close>

text \<open>
  The conversions of Python on a field of a frame line, \<open>None\<close> where they raise
  \<open>ValueError\<close>. Both strip the white space around the text and take an optional sign.
  A run of digits may hold single underscores between digits.
\<close>

definition lower :: "char \<Rightarrow> char" where
  "lower c =
     (case map_of (zip ''ABCDEFGHIJKLMNOPQRSTUVWXYZ'' ''abcdefghijklmnopqrstuvwxyz'') c of
        Some l \<Rightarrow> l
      | None \<Rightarrow> c)"

fun digitpart :: "string \<Rightarrow> bool" where
  "digitpart [] = False"
| "digitpart [c] = is_digit c"
| "digitpart (c # d # r) =
     (is_digit c \<and> (if d = CHR ''_'' then digitpart r else digitpart (d # r)))"

definition digitpart_value :: "string \<Rightarrow> int" where
  "digitpart_value s = int_digits (filter (\<lambda>c. c \<noteq> CHR ''_'') s)"

definition unsigned :: "string \<Rightarrow> bool \<times> string" where
  "unsigned s =
     (case s of
        [] \<Rightarrow> (False, [])
      | c # r \<Rightarrow> if c = CHR ''-'' then (True, r) else if c = CHR ''+'' then (False, r)
                 else (False, s))"

text \<open>\<open>int(s)\<close> in base 10.\<close>

definition py_int :: "string \<Rightarrow> int option" where
  "py_int s =
     (case unsigned (strip s) of
        (neg, u) \<Rightarrow>
          if digitpart u then Some (if neg then - digitpart_value u else digitpart_value u)
          else None)"

text \<open>The mantissa of a decimal number: digits, digits with a fraction, digits with a dot,
  or a dot with a fraction.\<close>

definition mantissa :: "string \<Rightarrow> real option" where
  "mantissa m =
     (let ip = takeWhile (\<lambda>c. c \<noteq> CHR ''.'') m;
          rest = dropWhile (\<lambda>c. c \<noteq> CHR ''.'') m
      in if rest = [] then (if digitpart ip then Some (of_int (digitpart_value ip)) else None)
         else (let fp = tl rest;
                   fv = of_int (digitpart_value fp)
                          / 10 ^ length (filter (\<lambda>c. c \<noteq> CHR ''_'') fp)
               in if ip = [] \<and> digitpart fp then Some fv
                  else if digitpart ip \<and> fp = [] then Some (of_int (digitpart_value ip))
                  else if digitpart ip \<and> digitpart fp
                  then Some (of_int (digitpart_value ip) + fv)
                  else None))"

definition is_exp_char :: "char \<Rightarrow> bool" where
  "is_exp_char c = (c = CHR ''e'' \<or> c = CHR ''E'')"

text \<open>A mantissa with an optional exponent \<open>e\<close> or \<open>E\<close>, a sign and digits.\<close>

definition floatnumber :: "string \<Rightarrow> real option" where
  "floatnumber u =
     (let m = takeWhile (\<lambda>c. \<not> is_exp_char c) u;
          rest = dropWhile (\<lambda>c. \<not> is_exp_char c) u
      in case mantissa m of
           None \<Rightarrow> None
         | Some v \<Rightarrow>
             if rest = [] then Some v
             else (case unsigned (tl rest) of
                     (neg, e) \<Rightarrow>
                       if digitpart e
                       then Some (if neg then v / 10 ^ nat (digitpart_value e)
                                  else v * 10 ^ nat (digitpart_value e))
                       else None))"

text \<open>
  \<open>float(s)\<close>: the words \<open>nan\<close>, \<open>inf\<close> and \<open>infinity\<close> in any case give the non-finite
  values and do not raise; a decimal number out of the range gives an infinity.
\<close>

definition py_float :: "string \<Rightarrow> pyfloat option" where
  "py_float s =
     (case unsigned (strip s) of
        (neg, u) \<Rightarrow>
          if map lower u = ''nan'' then Some NaN
          else if map lower u = ''inf'' \<or> map lower u = ''infinity''
          then Some (if neg then NInf else PInf)
          else (case floatnumber u of
                  None \<Rightarrow> None
                | Some v \<Rightarrow> Some (fl (if neg then - v else v))))"

section \<open>Invariants of the parsers\<close>

text \<open>The first group marker of a pattern closes a group: the text matched so far belongs to
  the group that is open.\<close>

fun first_close :: "item list \<Rightarrow> bool" where
  "first_close [] = False"
| "first_close (GClose # r) = True"
| "first_close (GOpen # r) = False"
| "first_close (i # r) = first_close r"

text \<open>Every session of the parser, and the open one, has a pixel scale that is not negative.\<close>

definition scales_nonneg :: "'f phd2_state \<Rightarrow> bool" where
  "scales_nonneg st =
     (list_all (\<lambda>s. 0 \<le> pixel_scale s) (sessions (fst st))
      \<and> (case snd st of None \<Rightarrow> True | Some s \<Rightarrow> 0 \<le> pixel_scale s))"

text \<open>The fields that only the correlation writes are at their defaults, in every exposure of
  the parser and in the pending one.\<close>

definition rms_unset :: "Exposure \<Rightarrow> bool" where
  "rms_unset e = (ra_rms e = None \<and> dec_rms e = None \<and> total_rms e = None \<and> guiding_frames e = 0)"

definition exposures_unset :: "NINAParser \<Rightarrow> bool" where
  "exposures_unset p =
     (list_all rms_unset (exposures p)
      \<and> (case pending_exposure p of None \<Rightarrow> True | Some e \<Rightarrow> rms_unset e))"


section \<open>Example data\<close>

text \<open>Small inputs at which the theorems below are evaluated.\<close>

definition mk_frame :: "real \<Rightarrow> real \<Rightarrow> real \<Rightarrow> real GuidingFrame" where
  "mk_frame t r d =
     \<lparr>frame = 1, time = t, dx = 0, dy = 0, ra_raw = r, dec_raw = d, ra_guide = 0, dec_guide = 0,
      ra_duration = 0, dec_duration = 0, ra_direction = [], dec_direction = [],
      star_mass = 0, snr = 0, error_code = 0\<rparr>"

definition mk_session ::
  "datetime \<Rightarrow> real \<Rightarrow> real GuidingFrame list \<Rightarrow> real GuidingSession" where
  "mk_session t0 sc fs =
     \<lparr>start_time = t0, end_time = None, equipment_profile = [], pixel_scale = sc,
      focal_length = 0, ra = 0, dec = 0, hour_angle = 0, pier_side = [], altitude = 0,
      azimuth = 0, frames = fs\<rparr>"

definition mk_exposure :: "datetime \<Rightarrow> real \<Rightarrow> Exposure" where
  "mk_exposure t0 d =
     \<lparr>timestamp = t0, exposure_time = d, filter_name = ''L'', gain = 100, offset = 10,
      binning = ''1x1'', image_type = ''LIGHT'', hfr = None, stars_detected = None,
      saved_path = None, ra_rms = None, dec_rms = None, total_rms = None, guiding_frames = 0\<rparr>"

definition ex_session :: "real GuidingSession" where
  "ex_session = mk_session 0 1 [mk_frame 0 1 0, mk_frame 10 1 0, mk_frame 70 1 0]"

definition ex_window_session :: "real GuidingSession" where
  "ex_window_session = mk_session 0 1 [mk_frame 5 3 4, mk_frame 15 3 4, mk_frame 40 1 1]"

definition ex_two_scales :: "real GuidingSession list" where
  "ex_two_scales = [mk_session 0 2 [mk_frame 0 1 0], mk_session 0 3 [mk_frame 0 1 0]]"

definition ex_dither :: "DitherEvent list" where
  "ex_dither = [\<lparr>dither_start_time = 0, dither_end_time = Some 80000000\<rparr>]"

text \<open>Conversions for the fields of a frame line, on decimal text.\<close>

definition to_float_dec :: "string \<Rightarrow> real option" where
  "to_float_dec s = (case float_decimal s of Inr v \<Rightarrow> Some v | Inl e \<Rightarrow> None)"

definition to_int_dec :: "string \<Rightarrow> int option" where
  "to_int_dec s = (if s \<noteq> [] \<and> list_all is_digit s then Some (int_digits s) else None)"

text \<open>A guiding log with one closed session, the session it parses to, and the frame line
  that follows an unterminated begin marker.\<close>

definition ex_guide_log :: "string list" where
  "ex_guide_log =
     [''Guiding Begins at 2026-01-22 22:10:00'',
      ''Pixel scale = 2.0 arc-sec/px, Focal length = 510 mm'',
      ''1,5.0,m,0,0,3,4,0,0,,,,,,,,,'',
      ''Guiding Ends at 2026-01-22 23:10:00'']"

definition ex_parsed_session :: "real GuidingSession" where
  "ex_parsed_session =
     \<lparr>start_time = 1769119800000000, end_time = Some 1769123400000000,
      equipment_profile = [], pixel_scale = 2, focal_length = 510, ra = 0, dec = 0,
      hour_angle = 0, pier_side = [], altitude = 0, azimuth = 0,
      frames = [\<lparr>frame = 1, time = 5, dx = 0, dy = 0, ra_raw = 3, dec_raw = 4, ra_guide = 0,
                 dec_guide = 0, ra_duration = 0, dec_duration = 0, ra_direction = [],
                 dec_direction = [], star_mass = 0, snr = 0, error_code = 0\<rparr>]\<rparr>"

definition ex_open_tail :: "string list" where
  "ex_open_tail = [''2,1.0,m,0,0,1,1,0,0,,,,,,,,,'']"

text \<open>An imaging log with two exposures, the first during the guiding session above, and the
  exposures it parses to.\<close>

definition ex_imaging_log :: "string list" where
  "ex_imaging_log =
     [''2026-01-22T22:10:00.000 CameraVM Starting Exposure Exposure Time: 30s; Filter: L; Gain: 100; Offset 10; Binning: 1x1'',
      ''2026-01-22T22:10:31.000 SaveToDisk LIGHT Saved image to a.fits'',
      ''2026-01-22T22:20:00.000 CameraVM Starting Exposure Exposure Time: 30s; Filter: L; Gain: 100; Offset 10; Binning: 1x1'',
      ''2026-01-22T22:20:31.000 SaveToDisk LIGHT Saved image to b.fits'']"

definition ex_exposure_a :: Exposure where
  "ex_exposure_a =
     \<lparr>timestamp = 1769119800000000, exposure_time = 30, filter_name = ''L'', gain = 100,
      offset = 10, binning = ''1x1'', image_type = ''LIGHT'', hfr = None,
      stars_detected = None, saved_path = Some ''a.fits'', ra_rms = None, dec_rms = None,
      total_rms = None, guiding_frames = 0\<rparr>"

definition ex_exposure_b :: Exposure where
  "ex_exposure_b =
     \<lparr>timestamp = 1769120400000000, exposure_time = 30, filter_name = ''L'', gain = 100,
      offset = 10, binning = ''1x1'', image_type = ''LIGHT'', hfr = None,
      stars_detected = None, saved_path = Some ''b.fits'', ra_rms = None, dec_rms = None,
      total_rms = None, guiding_frames = 0\<rparr>"

text \<open>An imaging log with one closed dither, a log without markers, and a dither start line
  with and without the fractional part of the timestamp.\<close>

definition ex_dither_log :: "string list" where
  "ex_dither_log =
     [''2026-01-22T22:04:19.000 SequenceItem Starting Item: Dither'',
      ''2026-01-22T22:04:29.500 SequenceItem Finishing Item: Dither'']"

definition ex_plain_log :: "string list" where
  "ex_plain_log = [''2026-01-23T21:00:00.000 Camera cooled'']"

definition ex_second_precision_line :: string where
  "ex_second_precision_line = ''2026-01-22T22:04:19 SequenceItem Starting Item: Dither''"

definition ex_millisecond_line :: string where
  "ex_millisecond_line = ''2026-01-22T22:04:19.000 SequenceItem Starting Item: Dither''"

text \<open>The session of the guiding log above as the conversions of Python give it; a guiding
  log whose frame has \<open>nan\<close> as RA error, and one whose frame has the RA error \<open>1e154\<close>,
  with the sessions they parse to.\<close>

definition ex_float_session :: "pyfloat GuidingSession" where
  "ex_float_session =
     \<lparr>start_time = 1769119800000000, end_time = Some 1769123400000000,
      equipment_profile = [], pixel_scale = 2, focal_length = 510, ra = 0, dec = 0,
      hour_angle = 0, pier_side = [], altitude = 0, azimuth = 0,
      frames = [\<lparr>frame = 1, time = Fin 5, dx = Fin 0, dy = Fin 0, ra_raw = Fin 3,
                 dec_raw = Fin 4, ra_guide = Fin 0, dec_guide = Fin 0, ra_duration = 0,
                 dec_duration = 0, ra_direction = [], dec_direction = [], star_mass = Fin 0,
                 snr = Fin 0, error_code = 0\<rparr>]\<rparr>"

definition ex_nan_log :: "string list" where
  "ex_nan_log =
     [''Guiding Begins at 2026-01-22 22:10:00'',
      ''Pixel scale = 2.0 arc-sec/px, Focal length = 510 mm'',
      ''1,0.5,Mount,0,0,nan,0,0,0,,,,,,,,,'',
      ''Guiding Ends at 2026-01-22 23:10:00'']"

definition ex_nan_session :: "pyfloat GuidingSession" where
  "ex_nan_session =
     \<lparr>start_time = 1769119800000000, end_time = Some 1769123400000000,
      equipment_profile = [], pixel_scale = 2, focal_length = 510, ra = 0, dec = 0,
      hour_angle = 0, pier_side = [], altitude = 0, azimuth = 0,
      frames = [\<lparr>frame = 1, time = Fin (1 / 2), dx = Fin 0, dy = Fin 0, ra_raw = NaN,
                 dec_raw = Fin 0, ra_guide = Fin 0, dec_guide = Fin 0, ra_duration = 0,
                 dec_duration = 0, ra_direction = [], dec_direction = [], star_mass = Fin 0,
                 snr = Fin 0, error_code = 0\<rparr>]\<rparr>"

definition ex_overflow_log :: "string list" where
  "ex_overflow_log =
     [''Guiding Begins at 2026-01-22 22:10:00'',
      ''Pixel scale = 2.0 arc-sec/px, Focal length = 510 mm'',
      ''1,0.5,Mount,0,0,1e154,0,0,0,,,,,,,,,'',
      ''Guiding Ends at 2026-01-22 23:10:00'']"

definition ex_overflow_session :: "pyfloat GuidingSession" where
  "ex_overflow_session =
     \<lparr>start_time = 1769119800000000, end_time = Some 1769123400000000,
      equipment_profile = [], pixel_scale = 2, focal_length = 510, ra = 0, dec = 0,
      hour_angle = 0, pier_side = [], altitude = 0, azimuth = 0,
      frames = [\<lparr>frame = 1, time = Fin (1 / 2), dx = Fin 0, dy = Fin 0, ra_raw = Fin (10 ^ 154),
                 dec_raw = Fin 0, ra_guide = Fin 0, dec_guide = Fin 0, ra_duration = 0,
                 dec_duration = 0, ra_direction = [], dec_direction = [], star_mass = Fin 0,
                 snr = Fin 0, error_code = 0\<rparr>]\<rparr>"


section \<open>Properties of the aggregation and of the correlation\<close>

subsection \<open>Auxiliary facts\<close>

lemma round_half_even_of_int: "round_half_even (of_int n) = n"
  by (simp add: round_half_even_def)

lemma timedelta_seconds_30: "timedelta_seconds 30 = 30000000"
  by (simp add: timedelta_seconds_def round_half_even_def)

lemma sqrt_9: "sqrt 9 = 3"
  by (rule real_sqrt_unique) simp_all

lemma sqrt_16: "sqrt 16 = 4"
  by (rule real_sqrt_unique) simp_all

lemma sqrt_25: "sqrt 25 = 5"
  by (rule real_sqrt_unique) simp_all

lemma qualifies_cong:
  "timestamp e' = timestamp e \<Longrightarrow> exposure_time e' = exposure_time e \<Longrightarrow>
   qualifies de m e' = qualifies de m e"
  by (intro ext) (simp add: qualifies_def)

lemma correlate_exposure_window:
  "timestamp (correlate_exposure ss de m sc e) = timestamp e"
  "exposure_time (correlate_exposure ss de m sc e) = exposure_time e"
  by (simp_all add: correlate_exposure_def Let_def)

lemma correlate_exposure_collected:
  "collected ss de m (correlate_exposure ss de m sc e) = collected ss de m e"
  unfolding collected_def
  by (simp add: qualifies_cong[OF correlate_exposure_window])

lemma correlate_exposure_idem:
  "correlate_exposure ss de m sc (correlate_exposure ss de m sc e)
   = correlate_exposure ss de m sc e"
proof (cases "collected ss de m e = []")
  case True
  then show ?thesis by (simp add: correlate_exposure_def)
next
  case False
  have "correlate_exposure ss de m sc (correlate_exposure ss de m sc e)
      = (let fs = collected ss de m e; r = rms_px (map ra_raw fs) * sc;
             d = rms_px (map dec_raw fs) * sc
         in (correlate_exposure ss de m sc e)\<lparr>ra_rms := Some r, dec_rms := Some d,
               total_rms := Some (sqrt (r\<^sup>2 + d\<^sup>2)), guiding_frames := length fs\<rparr>)"
    using False
    by (simp add: correlate_exposure_def[of _ _ _ _ "correlate_exposure ss de m sc e"]
        correlate_exposure_collected Let_def)
  also have "\<dots> = correlate_exposure ss de m sc e"
    using False by (simp add: correlate_exposure_def Let_def)
  finally show ?thesis .
qed

lemma session_rms_empty:
  "frames s = [] \<Longrightarrow> session_ra_rms s = 0 \<and> session_dec_rms s = 0 \<and> session_total_rms s = 0"
  by (simp add: session_ra_rms_def session_dec_rms_def session_total_rms_def)

lemma overall_loop_ra:
  "fst (snd (overall_loop de m ss acc))
   = fst (snd acc) @ concat (map (\<lambda>s. map ra_raw (kept_frames de m s)) ss)"
proof (induction ss arbitrary: acc)
  case Nil
  then show ?case by simp
next
  case (Cons s ss)
  obtain sc xs ys where acc: "acc = (sc, xs, ys)" by (cases acc) auto
  show ?case unfolding acc by (simp add: Cons.IH)
qed




lemma ex_window_frame_times:
  "frame_datetime ex_window_session (mk_frame 5 3 4) = 5000000"
  "frame_datetime ex_window_session (mk_frame 15 3 4) = 15000000"
  "frame_datetime ex_window_session (mk_frame 40 1 1) = 40000000"
  by (simp_all add: ex_window_session_def frame_datetime_def to_timestamp_def fromtimestamp_def
      mk_session_def mk_frame_def round_half_even_def)

subsection \<open>Idempotent correlation\<close>

text \<open>
  C2. Running \<open>correlate_guiding_with_exposures\<close> a second time with the same guiding
  sessions, dither list and margin on the exposures it has already updated leaves every
  exposure as the first run left it: the RMS fields and the frame count are overwritten with
  the same values, and nothing accumulates.
\<close>

theorem correlate_idempotent:
  "correlate_guiding_with_exposures ss
     (correlate_guiding_with_exposures ss es de m) de m
   = correlate_guiding_with_exposures ss es de m"
  by (simp add: correlate_guiding_with_exposures_def correlate_exposure_idem)

theorem correlate_idempotent_witness:
  "correlate_guiding_with_exposures [ex_window_session]
     (correlate_guiding_with_exposures [ex_window_session] [mk_exposure 0 30] None 3) None 3
   = correlate_guiding_with_exposures [ex_window_session] [mk_exposure 0 30] None 3"
  using correlate_idempotent [of "[ex_window_session]" "[mk_exposure 0 30]" None 3] by simp

subsection \<open>The pixel scale of the overall RMS\<close>

text \<open>
  C3. The claim says that \<open>get_overall_rms\<close> scales by the pixel scale of the first
  session that declares a nonzero one. On two sessions with the scales 2 and 3, one frame
  each with the raw RA error 1, the loop assigns the scale at every session and ends with
  the scale 3 of the last one: the result is \<open>(3, 0, 3)\<close>, where the first scale, which
  the correlation takes, is 2.
\<close>

theorem overall_rms_takes_last_scale:
  "get_overall_rms ex_two_scales None 3 = (3, 0, 3) \<and> first_pixel_scale ex_two_scales = 2"
  by (simp add: ex_two_scales_def get_overall_rms_def kept_frames_def skip_frame_def
      mk_session_def mk_frame_def rms_px_def Let_def)

subsection \<open>Bucket coverage\<close>



subsection \<open>The literal case of the exposure window\<close>

text \<open>
  C8. An exposure starts at \<open>T0\<close> and lasts 30 seconds; the guiding session has the pixel
  scale 1 and three frames whose absolute times are \<open>T0 + 5 s\<close>, \<open>T0 + 15 s\<close> and
  \<open>T0 + 40 s\<close>; there is no dither exclusion. Then the correlation sets
  \<open>guiding_frames\<close> to 2 and the RMS fields to the RMS of the raw errors of the first
  two frames only.
\<close>

theorem window_literal:
  assumes fs: "frames s = [f1, f2, f3]"
    and sc: "pixel_scale s = 1"
    and t1: "frame_datetime s f1 = timestamp e + 5000000"
    and t2: "frame_datetime s f2 = timestamp e + 15000000"
    and t3: "frame_datetime s f3 = timestamp e + 40000000"
    and du: "exposure_time e = 30"
    and de: "de = None \<or> de = Some []"
  shows "correlate_guiding_with_exposures [s] [e] de m
       = [e\<lparr>ra_rms := Some (rms_px [ra_raw f1, ra_raw f2]),
             dec_rms := Some (rms_px [dec_raw f1, dec_raw f2]),
             total_rms := Some (sqrt ((rms_px [ra_raw f1, ra_raw f2])\<^sup>2
                                    + (rms_px [dec_raw f1, dec_raw f2])\<^sup>2)),
             guiding_frames := 2\<rparr>]"
proof -
  have q1: "qualifies de m e s f1" and q2: "qualifies de m e s f2"
    and q3: "\<not> qualifies de m e s f3"
    using de by (auto simp: qualifies_def t1 t2 t3 du timedelta_seconds_30)
  have c: "collected [s] de m e = [f1, f2]"
    by (simp add: collected_def fs q1 q2 q3)
  show ?thesis
    by (simp add: correlate_guiding_with_exposures_def correlate_exposure_def c sc Let_def)
qed

theorem window_literal_witness:
  "correlate_guiding_with_exposures [ex_window_session] [mk_exposure 0 30] None 3
   = [(mk_exposure 0 30)\<lparr>ra_rms := Some 3, dec_rms := Some 4, total_rms := Some 5,
                          guiding_frames := 2\<rparr>]"
proof -
  have fs: "frames ex_window_session = [mk_frame 5 3 4, mk_frame 15 3 4, mk_frame 40 1 1]"
    and sc: "pixel_scale ex_window_session = 1"
    by (simp_all add: ex_window_session_def mk_session_def)
  have t1: "frame_datetime ex_window_session (mk_frame 5 3 4)
            = timestamp (mk_exposure 0 30) + 5000000"
    and t2: "frame_datetime ex_window_session (mk_frame 15 3 4)
            = timestamp (mk_exposure 0 30) + 15000000"
    and t3: "frame_datetime ex_window_session (mk_frame 40 1 1)
            = timestamp (mk_exposure 0 30) + 40000000"
    by (simp_all add: ex_window_frame_times mk_exposure_def)
  have du: "exposure_time (mk_exposure 0 30) = 30" by (simp add: mk_exposure_def)
  have de: "(None :: DitherEvent list option) = None \<or> None = Some []" by simp
  have r: "rms_px [ra_raw (mk_frame 5 3 4), ra_raw (mk_frame 15 3 4)] = 3"
    and d: "rms_px [dec_raw (mk_frame 5 3 4), dec_raw (mk_frame 15 3 4)] = 4"
    by (simp_all add: rms_px_def mk_frame_def sqrt_9 sqrt_16)
  show ?thesis
    using window_literal [OF fs sc t1 t2 t3 du de, of 3] by (simp add: r d sqrt_25)
qed

subsection \<open>Sessions and aggregates without frames\<close>

text \<open>
  C10. A session whose frame list is empty has the RA, Dec and total RMS 0, whatever its
  pixel scale; and \<open>get_overall_rms\<close> returns \<open>(0, 0, 0)\<close> when no frame of any session
  survives the dither exclusion.
\<close>

theorem empty_rms_zero:
  "(frames s = [] \<longrightarrow> session_ra_rms s = 0 \<and> session_dec_rms s = 0 \<and> session_total_rms s = 0)
 \<and> ((\<forall>s' \<in> set ss. kept_frames de m s' = []) \<longrightarrow>
      get_overall_rms ss de m = (0, 0, 0))"
proof (intro conjI impI)
  assume a: "\<forall>s' \<in> set ss. kept_frames de m s' = []"
  obtain sc xs ys where o: "overall_loop de m ss (1, [], []) = (sc, xs, ys)"
    by (cases "overall_loop de m ss (1, [], [])") auto
  have "xs = concat (map (\<lambda>s. map ra_raw (kept_frames de m s)) ss)"
    using overall_loop_ra [of de m ss "(1, [], [])"] o by simp
  with a have "xs = []" by simp
  then show "get_overall_rms ss de m = (0, 0, 0)"
    by (simp add: get_overall_rms_def o)
qed (simp_all add: session_rms_empty)

theorem empty_rms_zero_witness:
  "frames (mk_session 0 2 []) = []
   \<and> session_ra_rms (mk_session 0 2 []) = 0 \<and> session_dec_rms (mk_session 0 2 []) = 0
   \<and> session_total_rms (mk_session 0 2 []) = 0
   \<and> kept_frames (Some ex_dither) 3 ex_session = []
   \<and> get_overall_rms [ex_session] (Some ex_dither) 3 = (0, 0, 0)"
proof -
  have h1: "frames (mk_session 0 2 []) = []" by (simp add: mk_session_def)
  have h2: "\<forall>s' \<in> set [ex_session]. kept_frames (Some ex_dither) 3 s' = []"
    by (simp add: kept_frames_def ex_session_def ex_dither_def skip_frame_def mk_session_def
        mk_frame_def frame_datetime_def to_timestamp_def fromtimestamp_def round_half_even_def
        timedelta_seconds_def)
  show ?thesis
    using h1 h2 empty_rms_zero [of "mk_session 0 2 []" "[ex_session]" "Some ex_dither" 3]
    by simp
qed

section \<open>Properties of the parsers\<close>

subsection \<open>Auxiliary facts\<close>

lemma phd2_line_sessions:
  assumes "\<not> startswith line ''Guiding Ends at''"
    and "phd2_line tf ti line (p, cur) = Inr (p', cur')"
  shows "sessions p' = sessions p"
  using assms unfolding phd2_line_def
  by (auto split: if_splits option.splits list.splits sum.splits prod.splits)

lemma phd2_loop_sessions:
  "\<forall>l \<in> set ls. \<not> startswith (strip l) ''Guiding Ends at'' \<Longrightarrow>
   sessions (fst (fst (phd2_loop tf ti ls st))) = sessions (fst st)"
proof (induction ls arbitrary: st)
  case Nil
  then show ?case by simp
next
  case (Cons l ls)
  obtain p cur where st: "st = (p, cur)" by (cases st)
  show ?case
  proof (cases "phd2_line tf ti (strip l) st")
    case (Inl e)
    then show ?thesis by simp
  next
    case (Inr st')
    obtain p' cur' where st': "st' = (p', cur')" by (cases st')
    have "sessions p' = sessions p"
      using phd2_line_sessions[of "strip l" tf ti p cur p' cur'] Cons.prems Inr st st' by simp
    moreover have "sessions (fst (fst (phd2_loop tf ti ls st'))) = sessions (fst st')"
      using Cons.IH[of st'] Cons.prems by simp
    ultimately show ?thesis using Inr st st' by simp
  qed
qed

lemma phd2_loop_append:
  "phd2_loop tf ti (xs @ ys) st =
     (case phd2_loop tf ti xs st of
        (st', None) \<Rightarrow> phd2_loop tf ti ys st'
      | (st', Some e) \<Rightarrow> (st', Some e))"
  by (induction xs arbitrary: st) (auto split: sum.splits)

lemma startswith_append: "startswith s p \<Longrightarrow> \<exists>t. s = p @ t"
  unfolding startswith_def by (metis append_take_drop_id)

lemma run_steps_keeps:
  "(\<And>f p. f \<in> set fs \<Longrightarrow> g (fst (f p)) = g p) \<Longrightarrow> g (fst (run_steps fs p)) = g p"
proof (induction fs arbitrary: p)
  case Nil
  then show ?case by simp
next
  case (Cons f fs)
  obtain p' r where fp: "f p = (p', r)" by (cases "f p")
  have a: "g p' = g p" using Cons.prems[of f p] fp by simp
  show ?case
  proof (cases r)
    case None
    have "g (fst (run_steps fs p')) = g p'" using Cons.IH[of p'] Cons.prems by simp
    then show ?thesis using fp None a by simp
  next
    case (Some e)
    then show ?thesis using fp a by simp
  qed
qed

lemma steps_dither_events:
  "dither_events (fst (session_bounds ts p)) = dither_events p"
  "dither_events (fst (target_step line p)) = dither_events p"
  "dither_events (fst (autofocus_start ts line p)) = dither_events p"
  "dither_events (fst (autofocus_initial_position line p)) = dither_events p"
  "dither_events (fst (autofocus_trigger line p)) = dither_events p"
  "dither_events (fst (autofocus_temperature line p)) = dither_events p"
  "dither_events (fst (autofocus_completed line p)) = dither_events p"
  "dither_events (fst (star_detection line p)) = dither_events p"
  "dither_events (fst (filter_change ts line p)) = dither_events p"
  "dither_events (fst (exposure_start ts line p)) = dither_events p"
  "dither_events (fst (image_saved line p)) = dither_events p"
  "dither_events (fst (pier_side_step ts line p)) = dither_events p"
  "dither_events (fst (rms_alert ts line p)) = dither_events p"
  "dither_events (fst (dither_start ts line p)) = dither_events p"
  by (auto simp: session_bounds_def target_step_def autofocus_start_def
      autofocus_initial_position_def autofocus_trigger_def autofocus_temperature_def
      autofocus_completed_def star_detection_def filter_change_def exposure_start_def
      image_saved_def pier_side_step_def rms_alert_def dither_start_def Let_def
      split: option.splits list.splits sum.splits prod.splits)

lemma dither_end_dither_events:
  "\<not> dither_finish_marker line \<Longrightarrow> dither_events (fst (dither_end ts line p)) = dither_events p"
  by (simp add: dither_end_def)

lemma parse_line_dither_events:
  assumes "\<not> dither_finish_marker line"
  shows "dither_events (fst (parse_line line p)) = dither_events p"
proof (cases "parse_timestamp line")
  case (Inl e)
  then show ?thesis by (simp add: parse_line_def)
next
  case (Inr ot)
  show ?thesis
  proof (cases ot)
    case None
    then show ?thesis using Inr by (simp add: parse_line_def)
  next
    case (Some ts)
    have "dither_events (fst (run_steps (line_steps ts line) p)) = dither_events p"
      by (rule run_steps_keeps)
        (auto simp: line_steps_def steps_dither_events dither_end_dither_events[OF assms])
    then show ?thesis using Inr Some by (simp add: parse_line_def)
  qed
qed

lemma nina_loop_dither_events:
  "\<forall>l \<in> set ls. \<not> dither_finish_marker (strip l) \<Longrightarrow>
   dither_events (fst (nina_loop ls p)) = dither_events p"
proof (induction ls arbitrary: p)
  case Nil
  then show ?case by simp
next
  case (Cons l ls)
  obtain p' r where pl: "parse_line (strip l) p = (p', r)" by (cases "parse_line (strip l) p")
  have a: "dither_events p' = dither_events p"
    using parse_line_dither_events[of "strip l" p] Cons.prems pl by simp
  show ?case
  proof (cases r)
    case None
    then show ?thesis using pl a Cons.IH[of p'] Cons.prems by simp
  next
    case (Some e)
    then show ?thesis using pl a by simp
  qed
qed

lemma nina_loop_append:
  "nina_loop (xs @ ys) p =
     (case nina_loop xs p of
        (p', None) \<Rightarrow> nina_loop ys p'
      | (p', Some e) \<Rightarrow> (p', Some e))"
  by (induction xs arbitrary: p) (auto split: prod.splits option.splits)

lemma PHD2Parser_parse_sessions:
  "sessions (fst (PHD2Parser_parse tf ti p ls))
   = sessions (fst (fst (phd2_loop tf ti ls (p\<lparr>sessions := []\<rparr>, None))))"
  by (simp add: PHD2Parser_parse_def split: prod.splits)

lemma run_steps_invariant:
  "(\<And>f p. f \<in> set fs \<Longrightarrow> I p \<Longrightarrow> I (fst (f p))) \<Longrightarrow> I p \<Longrightarrow> I (fst (run_steps fs p))"
proof (induction fs arbitrary: p)
  case Nil
  then show ?case by simp
next
  case (Cons f fs)
  obtain p' r where fp: "f p = (p', r)" by (cases "f p")
  have a: "I p'" using Cons.prems(1)[of f p] Cons.prems(2) fp by simp
  show ?case
  proof (cases r)
    case None
    have "I (fst (run_steps fs p'))" using Cons.IH[of p'] Cons.prems(1) a by simp
    then show ?thesis using fp None by simp
  next
    case (Some e)
    then show ?thesis using fp a by simp
  qed
qed

lemma steps_exposures_unset:
  assumes "exposures_unset p"
  shows "exposures_unset (fst (session_bounds ts p))"
  "exposures_unset (fst (target_step line p))"
  "exposures_unset (fst (autofocus_start ts line p))"
  "exposures_unset (fst (autofocus_initial_position line p))"
  "exposures_unset (fst (autofocus_trigger line p))"
  "exposures_unset (fst (autofocus_temperature line p))"
  "exposures_unset (fst (autofocus_completed line p))"
  "exposures_unset (fst (star_detection line p))"
  "exposures_unset (fst (filter_change ts line p))"
  "exposures_unset (fst (exposure_start ts line p))"
  "exposures_unset (fst (image_saved line p))"
  "exposures_unset (fst (pier_side_step ts line p))"
  "exposures_unset (fst (rms_alert ts line p))"
  "exposures_unset (fst (dither_start ts line p))"
  "exposures_unset (fst (dither_end ts line p))"
  using assms
  by (auto simp: session_bounds_def target_step_def autofocus_start_def
      autofocus_initial_position_def autofocus_trigger_def autofocus_temperature_def
      autofocus_completed_def star_detection_def filter_change_def exposure_start_def
      image_saved_def pier_side_step_def rms_alert_def dither_start_def dither_end_def Let_def
      exposures_unset_def rms_unset_def
      split: option.splits list.splits sum.splits prod.splits)

lemma parse_line_exposures_unset:
  assumes "exposures_unset p"
  shows "exposures_unset (fst (parse_line line p))"
proof (cases "parse_timestamp line")
  case (Inl e)
  then show ?thesis using assms by (simp add: parse_line_def)
next
  case (Inr ot)
  show ?thesis
  proof (cases ot)
    case None
    then show ?thesis using Inr assms by (simp add: parse_line_def)
  next
    case (Some ts)
    have "exposures_unset (fst (run_steps (line_steps ts line) p))"
      by (rule run_steps_invariant[where I = exposures_unset])
        (auto simp: line_steps_def steps_exposures_unset assms)
    then show ?thesis using Inr Some by (simp add: parse_line_def)
  qed
qed

lemma nina_loop_exposures_unset:
  "exposures_unset p \<Longrightarrow> exposures_unset (fst (nina_loop ls p))"
proof (induction ls arbitrary: p)
  case Nil
  then show ?case by simp
next
  case (Cons l ls)
  obtain p' r where pl: "parse_line (strip l) p = (p', r)" by (cases "parse_line (strip l) p")
  have a: "exposures_unset p'"
    using parse_line_exposures_unset[OF Cons.prems, of "strip l"] pl by simp
  show ?case
  proof (cases r)
    case None
    then show ?thesis using pl Cons.IH[OF a] by simp
  next
    case (Some e)
    then show ?thesis using pl a by simp
  qed
qed

lemma parse_init_exposures_unset:
  "list_all rms_unset (exposures (fst (NINAParser_parse NINAParser_init ls)))"
proof -
  have "exposures_unset (NINAParser_init\<lparr>autofocus_runs := [], exposures := [],
          filter_changes := [], meridian_flips := [], rms_alerts := []\<rparr>)"
    by (simp add: exposures_unset_def NINAParser_init_def)
  from nina_loop_exposures_unset[OF this, of ls]
  show ?thesis by (simp add: NINAParser_parse_def exposures_unset_def)
qed

lemma rmatch_extends:
  "rmatch pat s cur caps = Some res \<Longrightarrow> \<exists>ext. res = caps @ ext"
  by (induction pat s cur caps rule: rmatch.induct)
    (auto split: if_splits option.splits)

lemma rmatch_open_group:
  "first_close pat \<Longrightarrow> rmatch pat s (Some g) caps = Some res \<Longrightarrow>
   \<exists>g' ext. res = caps @ (g @ g') # ext"
proof (induction pat s "Some g" caps arbitrary: g rule: rmatch.induct)
  case (3 r s caps)
  then show ?case using rmatch_extends[of r s None "caps @ [g]" res] by auto
qed (fastforce simp: push_def split: if_splits option.splits)+

lemma re_search_suffix:
  "re_search pat s = Some res \<Longrightarrow> \<exists>t. re_match pat t = Some res"
  by (induction s) (auto split: option.splits)

lemma rmatch_lit:
  "rmatch (lit w @ r) s None caps = Some res \<Longrightarrow> \<exists>t. rmatch r t None caps = Some res"
proof (induction w arbitrary: s)
  case Nil
  then show ?case by (auto simp: lit_def)
next
  case (Cons c w)
  then show ?case
    by (cases s) (auto simp: lit_def push_def split: if_splits)
qed

lemma first_group_class:
  assumes "re_search (lit w @ GOpen # Plus c # GClose # r) line = Some (g # gs)"
  shows "g \<noteq> [] \<and> in_cls c (hd g)"
proof -
  obtain t where "re_match (lit w @ GOpen # Plus c # GClose # r) t = Some (g # gs)"
    using re_search_suffix[OF assms] by blast
  then obtain u where u: "rmatch (GOpen # Plus c # GClose # r) u None [] = Some (g # gs)"
    unfolding re_match_def using rmatch_lit by blast
  then obtain x xs where x: "u = x # xs" "in_cls c x"
    and m: "rmatch (Star c # GClose # r) xs (Some [x]) [] = Some (g # gs)"
    by (cases u) (auto simp: push_def split: if_splits)
  have "first_close (Star c # GClose # r)" by simp
  from rmatch_open_group[OF this m] obtain g' ext where "g # gs = [] @ ([x] @ g') # ext"
    by blast
  then show ?thesis using x by simp
qed

lemma int_digits_foldl_nonneg:
  "0 \<le> n \<Longrightarrow> list_all is_digit s \<Longrightarrow> 0 \<le> foldl (\<lambda>n c. 10 * n + digit_val c) n s"
proof (induction s arbitrary: n)
  case Nil
  then show ?case by simp
next
  case (Cons c s)
  have "0 \<le> digit_val c" using Cons.prems(2) by (simp add: is_digit_def digit_val_def)
  then have "0 \<le> 10 * n + digit_val c" using Cons.prems(1) by simp
  then show ?case using Cons.IH Cons.prems(2) by simp
qed

lemma int_digits_nonneg: "list_all is_digit s \<Longrightarrow> 0 \<le> int_digits s"
  unfolding int_digits_def by (rule int_digits_foldl_nonneg) simp_all

lemma takeWhile_digits: "list_all is_digit (takeWhile is_digit s)"
  by (induction s) auto

lemma float_decimal_nonneg:
  assumes "float_decimal g = Inr v" and "g \<noteq> []" and "hd g \<noteq> CHR ''-''"
  shows "0 \<le> v"
proof -
  let ?ip = "takeWhile is_digit g" and ?rest = "dropWhile is_digit g"
  let ?fp = "if ?rest \<noteq> [] \<and> hd ?rest = CHR ''.'' then tl ?rest else []"
  have v: "v = of_int (int_digits ?ip) + of_int (int_digits ?fp) / 10 ^ length ?fp"
    and ok: "?rest = [] \<or> (hd ?rest = CHR ''.'' \<and> list_all is_digit (tl ?rest))"
    using assms by (auto simp: float_decimal_def Let_def split: if_splits)
  have "0 \<le> int_digits ?ip" by (rule int_digits_nonneg[OF takeWhile_digits])
  moreover have "list_all is_digit ?fp" using ok by auto
  then have "0 \<le> int_digits ?fp" by (rule int_digits_nonneg)
  ultimately show ?thesis unfolding v by simp
qed

lemma pixel_scale_group_nonneg:
  assumes "re_search re_pixel_scale line = Some [g1, g2]" and "float_decimal g1 = Inr v"
  shows "0 \<le> v"
proof -
  have "g1 \<noteq> [] \<and> in_cls DigitDot (hd g1)"
    using assms(1) unfolding re_pixel_scale_def
    by (intro first_group_class[of "''Pixel scale = ''" DigitDot _ line g1 "[g2]"]) simp
  then have "g1 \<noteq> []" "hd g1 \<noteq> CHR ''-''" by (auto simp: is_digit_def ord_def)
  from float_decimal_nonneg[OF assms(2) this] show ?thesis .
qed

lemma phd2_line_scales_nonneg:
  assumes "scales_nonneg st" and "phd2_line tf ti line st = Inr st'"
  shows "scales_nonneg st'"
proof -
  obtain p cur where st: "st = (p, cur)" by (cases st)
  show ?thesis
    using assms unfolding st phd2_line_def scales_nonneg_def
    apply (auto simp: new_session_def
        split: if_splits option.splits list.splits sum.splits prod.splits)
    apply (erule (1) pixel_scale_group_nonneg)
    done
qed

lemma phd2_loop_scales_nonneg:
  "scales_nonneg st \<Longrightarrow> scales_nonneg (fst (phd2_loop tf ti ls st))"
proof (induction ls arbitrary: st)
  case Nil
  then show ?case by simp
next
  case (Cons l ls)
  show ?case
  proof (cases "phd2_line tf ti (strip l) st")
    case (Inl e)
    then show ?thesis using Cons.prems by simp
  next
    case (Inr st')
    have "scales_nonneg st'" by (rule phd2_line_scales_nonneg[OF Cons.prems Inr])
    then show ?thesis using Inr Cons.IH by simp
  qed
qed

lemma parsed_scales_nonneg:
  "s \<in> set (sessions (fst (PHD2Parser_parse tf ti p ls))) \<Longrightarrow> 0 \<le> pixel_scale s"
proof -
  have "scales_nonneg (p\<lparr>sessions := []\<rparr>, None)" by (simp add: scales_nonneg_def)
  from phd2_loop_scales_nonneg[OF this, of tf ti ls]
  show "s \<in> set (sessions (fst (PHD2Parser_parse tf ti p ls))) \<Longrightarrow> 0 \<le> pixel_scale s"
    by (simp add: PHD2Parser_parse_sessions scales_nonneg_def list_all_iff)
qed

lemma first_pixel_scale_nonneg:
  "\<forall>s \<in> set ss. 0 \<le> pixel_scale s \<Longrightarrow> 0 \<le> first_pixel_scale ss"
  by (induction ss) auto

lemma ex_guide_log_parsed:
  "PHD2Parser_parse to_float_dec to_int_dec PHD2Parser_init ex_guide_log
   = (\<lparr>sessions = [ex_parsed_session], log_date = None\<rparr>, None)"
  by code_simp

lemma ex_imaging_log_parsed:
  "exposures (fst (NINAParser_parse NINAParser_init ex_imaging_log))
   = [ex_exposure_a, ex_exposure_b]"
  by code_simp

lemma ex_collected:
  "collected [ex_parsed_session] None 3 ex_exposure_a = frames ex_parsed_session"
  "collected [ex_parsed_session] None 3 ex_exposure_b = []"
  by code_simp+

lemma sqrt_100: "sqrt 100 = 10"
  by (rule real_sqrt_unique) simp_all

subsection \<open>Unterminated records\<close>

text \<open>
  C5. In a guiding log, when no line after a \<open>Guiding Begins at\<close> line starts with
  \<open>Guiding Ends at\<close>, the parser emits no session for that line: the sessions are those of
  the lines before it, and there is none when no earlier line is an end marker either. In an
  imaging log, when neither a line with the dither start marker nor any line after it has the
  dither finish marker, the parser emits no dither event for it: the dither events are those
  of the lines before it, and a fresh parser has none when no earlier line has the finish
  marker either. Both hold also when the call ends with an exception.
\<close>

theorem unterminated_records_omitted:
  assumes b: "startswith (strip b) ''Guiding Begins at''"
    and post: "\<forall>l \<in> set post. \<not> startswith (strip l) ''Guiding Ends at''"
    and s: "dither_start_marker (strip s)"
    and rest: "\<forall>l \<in> set (s # rest). \<not> dither_finish_marker (strip l)"
  shows "sessions (fst (PHD2Parser_parse tf ti p (pre @ b # post)))
           = sessions (fst (PHD2Parser_parse tf ti p pre))
       \<and> ((\<forall>l \<in> set pre. \<not> startswith (strip l) ''Guiding Ends at'') \<longrightarrow>
            sessions (fst (PHD2Parser_parse tf ti p (pre @ b # post))) = [])
       \<and> dither_events (fst (NINAParser_parse q (before @ s # rest)))
           = dither_events (fst (NINAParser_parse q before))
       \<and> ((\<forall>l \<in> set before. \<not> dither_finish_marker (strip l)) \<longrightarrow>
            dither_events (fst (NINAParser_parse NINAParser_init (before @ s # rest))) = [])"
proof -
  have nb: "\<not> startswith (strip b) ''Guiding Ends at''"
  proof -
    obtain t where "strip b = ''Guiding Begins at'' @ t"
      using b startswith_append by blast
    then show ?thesis by (simp add: startswith_def)
  qed
  have tail: "\<forall>l \<in> set (b # post). \<not> startswith (strip l) ''Guiding Ends at''"
    using nb post by simp
  have 1: "sessions (fst (PHD2Parser_parse tf ti p (pre @ b # post)))
           = sessions (fst (PHD2Parser_parse tf ti p pre))"
  proof -
    obtain st r where pr: "phd2_loop tf ti pre (p\<lparr>sessions := []\<rparr>, None) = (st, r)"
      by (cases "phd2_loop tf ti pre (p\<lparr>sessions := []\<rparr>, None)")
    show ?thesis
    proof (cases r)
      case None
      have "sessions (fst (fst (phd2_loop tf ti (b # post) st))) = sessions (fst st)"
        by (rule phd2_loop_sessions[OF tail])
      then show ?thesis using pr None
        by (simp add: PHD2Parser_parse_sessions phd2_loop_append del: phd2_loop.simps)
    next
      case (Some e)
      then show ?thesis using pr
        by (simp add: PHD2Parser_parse_sessions phd2_loop_append del: phd2_loop.simps)
    qed
  qed
  have 2: "sessions (fst (PHD2Parser_parse tf ti p (pre @ b # post))) = []"
    if "\<forall>l \<in> set pre. \<not> startswith (strip l) ''Guiding Ends at''"
  proof -
    have "\<forall>l \<in> set (pre @ b # post). \<not> startswith (strip l) ''Guiding Ends at''"
      using that tail by auto
    from phd2_loop_sessions[OF this, of tf ti "(p\<lparr>sessions := []\<rparr>, None)"]
    show ?thesis by (simp add: PHD2Parser_parse_sessions)
  qed
  have 3: "dither_events (fst (NINAParser_parse q0 (before @ s # rest)))
           = dither_events (fst (NINAParser_parse q0 before))" for q0
  proof -
    let ?q = "q0\<lparr>autofocus_runs := [], exposures := [], filter_changes := [],
                        meridian_flips := [], rms_alerts := []\<rparr>"
    obtain q' r where pr: "nina_loop before ?q = (q', r)" by (cases "nina_loop before ?q")
    show ?thesis
    proof (cases r)
      case None
      have "dither_events (fst (nina_loop (s # rest) q')) = dither_events q'"
        by (rule nina_loop_dither_events[OF rest])
      then show ?thesis using pr None
        by (simp add: NINAParser_parse_def nina_loop_append del: nina_loop.simps)
    next
      case (Some e)
      then show ?thesis using pr
        by (simp add: NINAParser_parse_def nina_loop_append del: nina_loop.simps)
    qed
  qed
  have 4: "dither_events (fst (NINAParser_parse NINAParser_init (before @ s # rest))) = []"
    if "\<forall>l \<in> set before. \<not> dither_finish_marker (strip l)"
  proof -
    have "\<forall>l \<in> set (before @ s # rest). \<not> dither_finish_marker (strip l)"
      using that rest by auto
    from nina_loop_dither_events[OF this]
    show ?thesis by (simp add: NINAParser_parse_def NINAParser_init_def)
  qed
  show ?thesis using 1 2 3[of q] 4 by blast
qed

theorem unterminated_records_omitted_witness:
  "sessions (fst (PHD2Parser_parse to_float_dec to_int_dec PHD2Parser_init
       (ex_guide_log @ ''Guiding Begins at 2026-01-22 23:20:00'' # ex_open_tail)))
     = [ex_parsed_session]
   \<and> dither_events (fst (NINAParser_parse NINAParser_init
         (ex_dither_log @ ex_millisecond_line # ex_plain_log)))
     = [\<lparr>dither_start_time = 1769119459000000, dither_end_time = Some 1769119469500000\<rparr>]"
proof -
  have b: "startswith (strip ''Guiding Begins at 2026-01-22 23:20:00'') ''Guiding Begins at''"
    by code_simp
  have post: "\<forall>l \<in> set ex_open_tail. \<not> startswith (strip l) ''Guiding Ends at''"
    by code_simp
  have s: "dither_start_marker (strip ex_millisecond_line)"
    by code_simp
  have rest: "\<forall>l \<in> set (ex_millisecond_line # ex_plain_log). \<not> dither_finish_marker (strip l)"
    by code_simp
  have d: "dither_events (fst (NINAParser_parse NINAParser_init ex_dither_log))
     = [\<lparr>dither_start_time = 1769119459000000, dither_end_time = Some 1769119469500000\<rparr>]"
    by code_simp
  show ?thesis
    using unterminated_records_omitted [OF b post s rest, of to_float_dec to_int_dec
        PHD2Parser_init ex_guide_log NINAParser_init ex_dither_log]
    by (simp add: ex_guide_log_parsed d)
qed

subsection \<open>Exposures without guiding frames\<close>

text \<open>
  C9. After a fresh parser has parsed an imaging log and the correlation has run on its
  exposures, every exposure for which no guiding frame qualifies (inside its inclusive window
  and outside the dither windows) has \<open>ra_rms\<close>, \<open>dec_rms\<close> and \<open>total_rms\<close> unset and
  \<open>guiding_frames\<close> equal to 0.
\<close>

theorem no_frames_leaves_rms_unset:
  assumes "i < length (exposures (fst (NINAParser_parse NINAParser_init ls)))"
    and "collected ss de m (exposures (fst (NINAParser_parse NINAParser_init ls)) ! i) = []"
  shows "rms_unset (correlate_guiding_with_exposures ss
           (exposures (fst (NINAParser_parse NINAParser_init ls))) de m ! i)"
proof -
  let ?es = "exposures (fst (NINAParser_parse NINAParser_init ls))"
  have "rms_unset (?es ! i)"
    using parse_init_exposures_unset[of ls] assms(1) by (simp add: list_all_length)
  moreover have "correlate_guiding_with_exposures ss ?es de m ! i = ?es ! i"
    using assms by (simp add: correlate_guiding_with_exposures_def correlate_exposure_def)
  ultimately show ?thesis by simp
qed

theorem no_frames_leaves_rms_unset_witness:
  "rms_unset (correlate_guiding_with_exposures [ex_parsed_session]
      (exposures (fst (NINAParser_parse NINAParser_init ex_imaging_log))) None 3 ! 1)
   \<and> length (exposures (fst (NINAParser_parse NINAParser_init ex_imaging_log))) = 2"
proof -
  have i: "1 < length (exposures (fst (NINAParser_parse NINAParser_init ex_imaging_log)))"
    by (simp add: ex_imaging_log_parsed)
  have c: "collected [ex_parsed_session] None 3
             (exposures (fst (NINAParser_parse NINAParser_init ex_imaging_log)) ! 1) = []"
    by (simp add: ex_imaging_log_parsed ex_collected)
  show ?thesis
    using no_frames_leaves_rms_unset [OF i c]
    by (simp add: ex_imaging_log_parsed)
qed

subsection \<open>Quadrature and sign of the RMS\<close>

text \<open>The largest double in its usual form, and the doubles of small reals.\<close>

lemma float_max_value: "float_max = (2 - 1 / 2 ^ 52) * 2 ^ 1023"
  by (simp add: float_max_def)

lemma fl_sqrt_Fin: "fl_sqrt x = Fin r \<Longrightarrow> \<exists>v. x = Fin v \<and> 0 \<le> v \<and> r = sqrt v"
  by (cases x) (auto split: if_splits)

lemma py_rms_nonneg: "py_rms vs = Fin a \<Longrightarrow> 0 \<le> a"
  unfolding py_rms_def by (drule fl_sqrt_Fin) auto

lemma fl_mul_Fin:
  "fl_mul x (fl sc) = Fin r \<Longrightarrow> \<exists>a. x = Fin a \<and> r = a * sc"
  by (cases x) (auto simp: fl_def signed_inf_def split: if_splits)

lemma py_total_Fin:
  assumes "py_total (Fin r) (Fin d) = Inr (Fin t)"
  shows "t = sqrt (r\<^sup>2 + d\<^sup>2) \<and> 0 \<le> t"
proof -
  have "fl_sqrt (fl_add (Fin (r * r)) (Fin (d * d))) = Fin t"
    using assms by (auto simp: py_total_def split: if_splits sum.splits)
  then have "fl_sqrt (fl (r * r + d * d)) = Fin t" by simp
  then obtain v where "fl (r * r + d * d) = Fin v" "t = sqrt v" "0 \<le> v"
    using fl_sqrt_Fin by blast
  then show ?thesis by (auto simp: fl_def power2_eq_square split: if_splits)
qed

lemma py_stats_Fin:
  assumes "0 \<le> sc" and "py_stats sc fs = Inr (Fin r, Fin d, Fin t)"
  shows "t = sqrt (r\<^sup>2 + d\<^sup>2) \<and> 0 \<le> r \<and> 0 \<le> d \<and> 0 \<le> t"
proof -
  have r: "fl_mul (py_rms (map ra_raw fs)) (fl sc) = Fin r"
    and d: "fl_mul (py_rms (map dec_raw fs)) (fl sc) = Fin d"
    and t: "py_total (Fin r) (Fin d) = Inr (Fin t)"
    using assms(2) by (auto simp: py_stats_def Let_def split: sum.splits)
  from fl_mul_Fin[OF r] obtain a where "py_rms (map ra_raw fs) = Fin a" "r = a * sc" by blast
  then have "0 \<le> r" using py_rms_nonneg assms(1) by auto
  moreover from fl_mul_Fin[OF d] obtain b where "py_rms (map dec_raw fs) = Fin b" "d = b * sc"
    by blast
  then have "0 \<le> d" using py_rms_nonneg assms(1) by auto
  ultimately show ?thesis using py_total_Fin[OF t] by simp
qed

lemma py_session_rms_nonneg:
  assumes "0 \<le> pixel_scale s"
  shows "py_session_ra_rms s = Fin r \<Longrightarrow> 0 \<le> r" and "py_session_dec_rms s = Fin d \<Longrightarrow> 0 \<le> d"
proof -
  show "0 \<le> r" if "py_session_ra_rms s = Fin r"
  proof (cases "frames s = [] \<or> pixel_scale s = 0")
    case True
    then show ?thesis using that py_rms_nonneg
      by (auto simp: py_session_ra_rms_def Let_def split: if_splits)
  next
    case False
    then have "fl_mul (py_rms (map ra_raw (frames s))) (fl (pixel_scale s)) = Fin r"
      using that by (simp add: py_session_ra_rms_def Let_def)
    from fl_mul_Fin[OF this] show ?thesis using py_rms_nonneg assms by auto
  qed
  show "0 \<le> d" if "py_session_dec_rms s = Fin d"
  proof (cases "frames s = [] \<or> pixel_scale s = 0")
    case True
    then show ?thesis using that py_rms_nonneg
      by (auto simp: py_session_dec_rms_def Let_def split: if_splits)
  next
    case False
    then have "fl_mul (py_rms (map dec_raw (frames s))) (fl (pixel_scale s)) = Fin d"
      using that by (simp add: py_session_dec_rms_def Let_def)
    from fl_mul_Fin[OF this] show ?thesis using py_rms_nonneg assms by auto
  qed
qed

lemma py_session_total_Fin:
  assumes "py_session_ra_rms s = Fin r" and "py_session_dec_rms s = Fin d"
    and "py_session_total_rms s = Inr (Fin t)"
  shows "t = sqrt (r\<^sup>2 + d\<^sup>2) \<and> 0 \<le> t"
proof (cases "frames s = []")
  case True
  then show ?thesis using assms
    by (simp add: py_session_total_rms_def py_session_ra_rms_def py_session_dec_rms_def)
next
  case False
  then have "py_total (Fin r) (Fin d) = Inr (Fin t)"
    using assms by (simp add: py_session_total_rms_def)
  then show ?thesis by (rule py_total_Fin)
qed

lemma float_max_bound: "1000 \<le> float_max"
  by (simp add: float_max_def)

lemma float_max_not_neg: "\<not> float_max < 0"
  by (simp add: float_max_def)

lemma fl_small: "\<bar>x\<bar> \<le> 1000 \<Longrightarrow> fl x = Fin x"
  using float_max_bound by (auto simp: fl_def)

text \<open>On finite doubles the statistics are those of the aggregation over the reals: a
  finite result of \<open>py_stats\<close> on the frames of a bucket or of an exposure is the result of
  \<open>bucket_rms\<close> and of \<open>correlate_exposure\<close>.\<close>

lemma fl_add_Fin: "fl_add x y = Fin z \<Longrightarrow> \<exists>a b. x = Fin a \<and> y = Fin b \<and> z = a + b"
  by (cases x; cases y) (auto simp: fl_def split: if_splits)

lemma fl_mul_Fin_Fin: "fl_mul (Fin a) (Fin b) = Fin z \<Longrightarrow> z = a * b"
  by (auto simp: fl_def split: if_splits)

lemma foldl_fl_add_Fin:
  "foldl fl_add x (map (\<lambda>v. fl_mul v v) (map Fin vs)) = Fin S \<Longrightarrow>
   \<exists>a. x = Fin a \<and> S = a + sum_list (map (\<lambda>v. v * v) vs)"
proof (induction vs arbitrary: x)
  case Nil
  then show ?case by simp
next
  case (Cons v vs)
  from Cons.prems have "foldl fl_add (fl_add x (fl_mul (Fin v) (Fin v)))
                          (map (\<lambda>v. fl_mul v v) (map Fin vs)) = Fin S" by simp
  from Cons.IH[OF this] obtain a where a: "fl_add x (fl_mul (Fin v) (Fin v)) = Fin a"
    and S: "S = a + sum_list (map (\<lambda>v. v * v) vs)" by blast
  from fl_add_Fin[OF a] obtain b c where x: "x = Fin b" and c: "fl_mul (Fin v) (Fin v) = Fin c"
    and abc: "a = b + c" by blast
  from fl_mul_Fin_Fin[OF c] have "c = v * v" .
  with x abc S show ?case by simp
qed

lemma py_rms_agrees:
  assumes "py_rms (map Fin vs) = Fin a"
  shows "a = rms_px vs"
proof -
  obtain v where v: "fl_div_n (foldl fl_add (Fin 0) (map (\<lambda>v. fl_mul v v) (map Fin vs)))
                       (length vs) = Fin v" and a: "a = sqrt v"
    using assms fl_sqrt_Fin unfolding py_rms_def by fastforce
  then obtain S where S: "foldl fl_add (Fin 0) (map (\<lambda>v. fl_mul v v) (map Fin vs)) = Fin S"
    and vS: "v = S / of_nat (length vs)"
    by (cases "foldl fl_add (Fin 0) (map (\<lambda>v. fl_mul v v) (map Fin vs))")
      (auto split: if_splits)
  from foldl_fl_add_Fin[OF S] have "S = sum_list (map (\<lambda>v. v * v) vs)" by simp
  then show ?thesis by (simp add: a vS rms_px_def)
qed

lemma py_stats_agrees:
  assumes "py_stats sc (map fin_frame fs) = Inr (Fin r, Fin d, Fin t)"
  shows "r = rms_px (map ra_raw fs) * sc" and "d = rms_px (map dec_raw fs) * sc"
    and "t = sqrt (r\<^sup>2 + d\<^sup>2)"
proof -
  have ra: "map ra_raw (map fin_frame fs) = map Fin (map ra_raw fs)"
    and de: "map dec_raw (map fin_frame fs) = map Fin (map dec_raw fs)"
    by (simp_all add: fin_frame_def)
  have r: "fl_mul (py_rms (map Fin (map ra_raw fs))) (fl sc) = Fin r"
    and d: "fl_mul (py_rms (map Fin (map dec_raw fs))) (fl sc) = Fin d"
    and t: "py_total (Fin r) (Fin d) = Inr (Fin t)"
    using assms unfolding py_stats_def ra de by (auto simp: Let_def split: sum.splits)
  from fl_mul_Fin[OF r] py_rms_agrees show "r = rms_px (map ra_raw fs) * sc" by blast
  from fl_mul_Fin[OF d] py_rms_agrees show "d = rms_px (map dec_raw fs) * sc" by blast
  from py_total_Fin[OF t] show "t = sqrt (r\<^sup>2 + d\<^sup>2)" by simp
qed

lemma bucket_rms_agrees:
  assumes "py_stats sc (map fin_frame fs) = Inr (Fin r, Fin d, Fin t)"
  shows "bucket_rms sc (t0, fs) = (t0, r, d, t)"
  using py_stats_agrees[OF assms] by (simp add: bucket_rms_def Let_def)

lemma correlate_exposure_agrees:
  assumes "py_stats sc (map fin_frame (collected ss de m e)) = Inr (Fin r, Fin d, Fin t)"
    and "collected ss de m e \<noteq> []"
  shows "ra_rms (correlate_exposure ss de m sc e) = Some r
       \<and> dec_rms (correlate_exposure ss de m sc e) = Some d
       \<and> total_rms (correlate_exposure ss de m sc e) = Some t"
  using py_stats_agrees[OF assms(1)] assms(2) by (simp add: correlate_exposure_def Let_def)

lemma fin_session_scale: "pixel_scale (fin_session s) = pixel_scale s"
  by (simp add: fin_session_def)

lemma first_pixel_scale_fin: "first_pixel_scale (map fin_session ss) = first_pixel_scale ss"
  by (induction ss) (simp_all add: fin_session_scale)

text \<open>The example logs under the conversions of Python, and the RMS of their sessions.\<close>

lemma ex_nan_log_parsed:
  "sessions (fst (PHD2Parser_parse py_float py_int PHD2Parser_init ex_nan_log)) = [ex_nan_session]"
  by code_simp

lemma ex_guide_log_float_parsed:
  "sessions (fst (PHD2Parser_parse py_float py_int PHD2Parser_init ex_guide_log))
   = [ex_float_session]"
  by code_simp

lemma ex_nan_rms:
  "py_session_ra_rms ex_nan_session = NaN"
  "py_session_dec_rms ex_nan_session = Fin 0"
  "py_session_total_rms ex_nan_session = Inr NaN"
  by (simp_all add: py_session_total_rms_def py_session_ra_rms_def py_session_dec_rms_def
      ex_nan_session_def py_rms_def py_total_def fl_small float_max_not_neg)

lemma ex_overflow_log_parsed:
  "sessions (fst (PHD2Parser_parse py_float py_int PHD2Parser_init ex_overflow_log))
   = [ex_overflow_session]"
  by code_simp

lemma ex_overflow_ra_rms: "py_session_ra_rms ex_overflow_session = Fin (2 * 10 ^ 154)"
proof -
  have sq: "fl (10 ^ 154 * 10 ^ 154) = Fin (10 ^ 154 * 10 ^ 154)"
    by (simp add: fl_def float_max_def)
  have rt: "sqrt (10 ^ 154 * 10 ^ 154) = (10 ^ 154 :: real)"
    by (simp only: real_sqrt_abs2) simp
  have "py_rms [Fin (10 ^ 154)] = Fin (10 ^ 154)"
    unfolding py_rms_def by (simp only: list.map foldl.simps fl_add.simps fl_mul.simps sq
        add_0 list.size fl_div_n.simps fl_sqrt.simps rt) simp
  moreover have "fl 2 = Fin 2" by (simp add: fl_small)
  moreover have "fl (10 ^ 154 * 2) = Fin (2 * 10 ^ 154)"
    by (simp add: fl_def float_max_def)
  ultimately show ?thesis
    by (simp add: py_session_ra_rms_def ex_overflow_session_def)
qed

lemma ex_overflow_dec_rms: "py_session_dec_rms ex_overflow_session = Fin 0"
  by (simp add: py_session_dec_rms_def ex_overflow_session_def py_rms_def fl_small)

lemma ex_float_rms:
  "py_session_ra_rms ex_float_session = Fin 6"
  "py_session_dec_rms ex_float_session = Fin 8"
  "py_session_total_rms ex_float_session = Inr (Fin 10)"
  "py_stats 2 (frames ex_float_session) = Inr (Fin 6, Fin 8, Fin 10)"
  by (simp_all add: py_session_total_rms_def py_session_ra_rms_def py_session_dec_rms_def
      py_stats_def ex_float_session_def py_rms_def py_total_def fl_small float_max_def
      sqrt_9 sqrt_16 sqrt_100)

lemma ex_float_session_fin: "fin_session ex_parsed_session = ex_float_session"
  by (simp add: fin_session_def fin_frame_def ex_parsed_session_def ex_float_session_def)

lemma ex_float_collected:
  "py_stats 2 (map fin_frame (collected [ex_parsed_session] None 3 ex_exposure_a))
   = Inr (Fin 6, Fin 8, Fin 10)"
  using ex_float_rms(4) ex_float_session_fin
  by (simp add: ex_collected fin_session_def ex_float_session_def)

text \<open>
  C6 as the specification states it, for every session, does not hold. \<open>float\<close>
  accepts the text \<open>nan\<close>, so \<open>_parse_frame\<close> keeps the frame line
  \<open>1,0.5,Mount,0,0,nan,0,0,0,,,,,,,,,\<close>, and the session that \<open>PHD2Parser.parse\<close> returns for
  the log \<open>ex_nan_log\<close> has the RA RMS \<open>nan\<close> and the total RMS \<open>nan\<close>: neither is
  \<open>>= 0\<close>, and the total RMS is not equal to the root of the sum of the squares, because
  \<open>nan\<close> is equal to no double. So not every session that \<open>parse\<close> returns has a RA RMS
  that is \<open>>= 0\<close>.
\<close>

theorem nan_frame_breaks_rms:
  "sessions (fst (PHD2Parser_parse py_float py_int PHD2Parser_init ex_nan_log)) = [ex_nan_session]
   \<and> py_session_ra_rms ex_nan_session = NaN
   \<and> py_session_dec_rms ex_nan_session = Fin 0
   \<and> py_session_total_rms ex_nan_session = Inr NaN
   \<and> \<not> fl_ge0 (py_session_ra_rms ex_nan_session)
   \<and> \<not> fl_ge0 (projr (py_session_total_rms ex_nan_session))
   \<and> \<not> fl_eq (projr (py_session_total_rms ex_nan_session))
          (fl_sqrt (fl_add
             (fl_mul (py_session_ra_rms ex_nan_session) (py_session_ra_rms ex_nan_session))
             (fl_mul (py_session_dec_rms ex_nan_session) (py_session_dec_rms ex_nan_session))))
   \<and> \<not> (\<forall>ls. \<forall>s \<in> set (sessions (fst (PHD2Parser_parse py_float py_int PHD2Parser_init ls))).
            fl_ge0 (py_session_ra_rms s))"
proof -
  have "\<not> (\<forall>ls. \<forall>s \<in> set (sessions (fst (PHD2Parser_parse py_float py_int PHD2Parser_init ls))).
            fl_ge0 (py_session_ra_rms s))"
  proof
    assume "\<forall>ls. \<forall>s \<in> set (sessions (fst (PHD2Parser_parse py_float py_int PHD2Parser_init ls))).
              fl_ge0 (py_session_ra_rms s)"
    then have "\<forall>s \<in> set (sessions (fst (PHD2Parser_parse py_float py_int PHD2Parser_init
                 ex_nan_log))). fl_ge0 (py_session_ra_rms s)" ..
    then have "fl_ge0 (py_session_ra_rms ex_nan_session)"
      by (simp add: ex_nan_log_parsed)
    then show False by (simp add: ex_nan_rms)
  qed
  then show ?thesis by (simp add: ex_nan_log_parsed ex_nan_rms)
qed

text \<open>A second way to fail: the RA error \<open>1e154\<close> with the pixel scale 2 gives the finite RA
  RMS \<open>2e154\<close>, whose square is out of the range, so \<open>self.ra_rms**2\<close> raises
  \<open>OverflowError\<close> and \<open>total_rms\<close> has no value.\<close>

lemma overflow_frame_raises:
  "sessions (fst (PHD2Parser_parse py_float py_int PHD2Parser_init ex_overflow_log))
     = [ex_overflow_session]
   \<and> py_session_total_rms ex_overflow_session = Inl OverflowError"
proof -
  have big: "float_max < (2 * 10 ^ 154) * (2 * 10 ^ 154)"
    by (simp add: float_max_def)
  have ne: "frames ex_overflow_session \<noteq> []"
    by (simp add: ex_overflow_session_def)
  have "py_total (Fin (2 * 10 ^ 154)) (Fin 0) = Inl OverflowError"
    unfolding py_total_def using big by (simp only: fl_pow2.simps if_True sum.case)
  then have "py_session_total_rms ex_overflow_session = Inl OverflowError"
    using ne by (simp only: py_session_total_rms_def ex_overflow_ra_rms ex_overflow_dec_rms
        if_False)
  then show ?thesis by (simp only: ex_overflow_log_parsed simp_thms)
qed

text \<open>
  C6, restricted to finite values. Take the sessions that \<open>PHD2Parser.parse\<close> returns, under
  the conversions of Python or any other conversion to doubles.
  \<^item> If the RA, Dec and total RMS of a session are finite doubles \<open>r\<close>, \<open>d\<close>, \<open>t\<close>, then
    \<open>t\<close> is the root of \<open>r\<^sup>2 + d\<^sup>2\<close> and the three are not negative.
  \<^item> The same holds for the three values that \<open>get_rms_over_time\<close> computes for a bucket
    of frames of a session (with the pixel scale of the session, or 1), and for the three
    values that the correlation writes to an exposure (with the first nonzero pixel scale
    of the sessions, or 1), whatever the frames of the bucket or of the exposure are.
  \<^item> For a session whose frames are all finite, the finite values of a bucket are the tuple
    that \<open>get_rms_over_time\<close> emits for it, and the finite values of an exposure with at
    least one contributing frame are the RMS fields of the exposure after the correlation.

  \<^noindent> Rounding is not modelled, so the identity is exact; a value that is \<open>nan\<close> or an
  infinity, and a total that raises \<open>OverflowError\<close>, are outside the statement.
\<close>

theorem rms_quadrature_finite:
  fixes tf :: "string \<Rightarrow> pyfloat option" and ti p0 ls
  defines "P \<equiv> fst (PHD2Parser_parse tf ti p0 ls)"
  shows "(\<forall>s \<in> set (sessions P). \<forall>r d t.
            py_session_ra_rms s = Fin r \<and> py_session_dec_rms s = Fin d
            \<and> py_session_total_rms s = Inr (Fin t) \<longrightarrow>
            t = sqrt (r\<^sup>2 + d\<^sup>2) \<and> 0 \<le> r \<and> 0 \<le> d \<and> 0 \<le> t)
       \<and> (\<forall>s \<in> set (sessions P). \<forall>fs r d t.
            py_stats (if pixel_scale s \<noteq> 0 then pixel_scale s else 1) fs
              = Inr (Fin r, Fin d, Fin t) \<longrightarrow>
            t = sqrt (r\<^sup>2 + d\<^sup>2) \<and> 0 \<le> r \<and> 0 \<le> d \<and> 0 \<le> t)
       \<and> (\<forall>fs r d t.
            py_stats (first_pixel_scale (sessions P)) fs = Inr (Fin r, Fin d, Fin t) \<longrightarrow>
            t = sqrt (r\<^sup>2 + d\<^sup>2) \<and> 0 \<le> r \<and> 0 \<le> d \<and> 0 \<le> t)
       \<and> (\<forall>s'. fin_session s' \<in> set (sessions P) \<longrightarrow>
            (\<forall>b \<in> set (session_buckets I de m s'). \<forall>r d t.
               py_stats (if pixel_scale s' \<noteq> 0 then pixel_scale s' else 1)
                 (map fin_frame (snd b)) = Inr (Fin r, Fin d, Fin t) \<longrightarrow>
               bucket_rms (if pixel_scale s' \<noteq> 0 then pixel_scale s' else 1) b
                 = (fst b, r, d, t)
               \<and> t = sqrt (r\<^sup>2 + d\<^sup>2) \<and> 0 \<le> r \<and> 0 \<le> d \<and> 0 \<le> t))
       \<and> (\<forall>ss'. map fin_session ss' = sessions P \<longrightarrow>
            (\<forall>i < length es. \<forall>r d t.
               collected ss' de m (es ! i) \<noteq> []
               \<and> py_stats (first_pixel_scale ss') (map fin_frame (collected ss' de m (es ! i)))
                   = Inr (Fin r, Fin d, Fin t) \<longrightarrow>
               ra_rms (correlate_guiding_with_exposures ss' es de m ! i) = Some r
               \<and> dec_rms (correlate_guiding_with_exposures ss' es de m ! i) = Some d
               \<and> total_rms (correlate_guiding_with_exposures ss' es de m ! i) = Some t
               \<and> t = sqrt (r\<^sup>2 + d\<^sup>2) \<and> 0 \<le> r \<and> 0 \<le> d \<and> 0 \<le> t))"
proof -
  have nn: "0 \<le> pixel_scale s" if "s \<in> set (sessions P)" for s
    using that unfolding P_def by (rule parsed_scales_nonneg)
  have 1: "t = sqrt (r\<^sup>2 + d\<^sup>2) \<and> 0 \<le> r \<and> 0 \<le> d \<and> 0 \<le> t"
    if "s \<in> set (sessions P)" "py_session_ra_rms s = Fin r" "py_session_dec_rms s = Fin d"
      "py_session_total_rms s = Inr (Fin t)" for s r d t
    using py_session_rms_nonneg[OF nn[OF that(1)]] py_session_total_Fin that by blast
  have 2: "t = sqrt (r\<^sup>2 + d\<^sup>2) \<and> 0 \<le> r \<and> 0 \<le> d \<and> 0 \<le> t"
    if "s \<in> set (sessions P)"
      "py_stats (if pixel_scale s \<noteq> 0 then pixel_scale s else 1) fs = Inr (Fin r, Fin d, Fin t)"
    for s fs r d t
  proof -
    have "0 \<le> (if pixel_scale s \<noteq> 0 then pixel_scale s else 1)" using nn[OF that(1)] by simp
    from py_stats_Fin[OF this that(2)] show ?thesis .
  qed
  have 3: "t = sqrt (r\<^sup>2 + d\<^sup>2) \<and> 0 \<le> r \<and> 0 \<le> d \<and> 0 \<le> t"
    if "py_stats (first_pixel_scale (sessions P)) fs = Inr (Fin r, Fin d, Fin t)" for fs r d t
  proof -
    have "0 \<le> first_pixel_scale (sessions P)"
      by (rule first_pixel_scale_nonneg) (simp add: nn)
    from py_stats_Fin[OF this that] show ?thesis .
  qed
  have 4: "bucket_rms (if pixel_scale s' \<noteq> 0 then pixel_scale s' else 1) b = (fst b, r, d, t)
           \<and> t = sqrt (r\<^sup>2 + d\<^sup>2) \<and> 0 \<le> r \<and> 0 \<le> d \<and> 0 \<le> t"
    if "fin_session s' \<in> set (sessions P)"
      "py_stats (if pixel_scale s' \<noteq> 0 then pixel_scale s' else 1) (map fin_frame (snd b))
         = Inr (Fin r, Fin d, Fin t)"
    for s' b r d t
  proof -
    have "bucket_rms (if pixel_scale s' \<noteq> 0 then pixel_scale s' else 1) (fst b, snd b)
          = (fst b, r, d, t)"
      by (rule bucket_rms_agrees[OF that(2)])
    moreover have "0 \<le> pixel_scale s'"
      using nn[OF that(1)] by (simp add: fin_session_scale)
    then have "0 \<le> (if pixel_scale s' \<noteq> 0 then pixel_scale s' else 1)" by simp
    from py_stats_Fin[OF this that(2)]
    have "t = sqrt (r\<^sup>2 + d\<^sup>2) \<and> 0 \<le> r \<and> 0 \<le> d \<and> 0 \<le> t" .
    ultimately show ?thesis by simp
  qed
  have 5: "ra_rms (correlate_guiding_with_exposures ss' es de m ! i) = Some r
           \<and> dec_rms (correlate_guiding_with_exposures ss' es de m ! i) = Some d
           \<and> total_rms (correlate_guiding_with_exposures ss' es de m ! i) = Some t
           \<and> t = sqrt (r\<^sup>2 + d\<^sup>2) \<and> 0 \<le> r \<and> 0 \<le> d \<and> 0 \<le> t"
    if "map fin_session ss' = sessions P" "i < length es"
      "collected ss' de m (es ! i) \<noteq> []"
      "py_stats (first_pixel_scale ss') (map fin_frame (collected ss' de m (es ! i)))
         = Inr (Fin r, Fin d, Fin t)"
    for ss' i r d t
  proof -
    have "first_pixel_scale (sessions P) = first_pixel_scale ss'"
      using first_pixel_scale_fin[of ss'] that(1) by simp
    then have "t = sqrt (r\<^sup>2 + d\<^sup>2) \<and> 0 \<le> r \<and> 0 \<le> d \<and> 0 \<le> t"
      using 3 that(4) by simp
    moreover have "correlate_guiding_with_exposures ss' es de m ! i
                   = correlate_exposure ss' de m (first_pixel_scale ss') (es ! i)"
      using that(2) by (simp add: correlate_guiding_with_exposures_def)
    ultimately show ?thesis using correlate_exposure_agrees[OF that(4) that(3)] by simp
  qed
  show ?thesis
  proof (intro conjI)
    show "\<forall>s \<in> set (sessions P). \<forall>r d t.
            py_session_ra_rms s = Fin r \<and> py_session_dec_rms s = Fin d
            \<and> py_session_total_rms s = Inr (Fin t) \<longrightarrow>
            t = sqrt (r\<^sup>2 + d\<^sup>2) \<and> 0 \<le> r \<and> 0 \<le> d \<and> 0 \<le> t"
      using 1 by blast
    show "\<forall>s \<in> set (sessions P). \<forall>fs r d t.
            py_stats (if pixel_scale s \<noteq> 0 then pixel_scale s else 1) fs
              = Inr (Fin r, Fin d, Fin t) \<longrightarrow>
            t = sqrt (r\<^sup>2 + d\<^sup>2) \<and> 0 \<le> r \<and> 0 \<le> d \<and> 0 \<le> t"
      using 2 by blast
    show "\<forall>fs r d t.
            py_stats (first_pixel_scale (sessions P)) fs = Inr (Fin r, Fin d, Fin t) \<longrightarrow>
            t = sqrt (r\<^sup>2 + d\<^sup>2) \<and> 0 \<le> r \<and> 0 \<le> d \<and> 0 \<le> t"
      using 3 by blast
    show "\<forall>s'. fin_session s' \<in> set (sessions P) \<longrightarrow>
            (\<forall>b \<in> set (session_buckets I de m s'). \<forall>r d t.
               py_stats (if pixel_scale s' \<noteq> 0 then pixel_scale s' else 1)
                 (map fin_frame (snd b)) = Inr (Fin r, Fin d, Fin t) \<longrightarrow>
               bucket_rms (if pixel_scale s' \<noteq> 0 then pixel_scale s' else 1) b
                 = (fst b, r, d, t)
               \<and> t = sqrt (r\<^sup>2 + d\<^sup>2) \<and> 0 \<le> r \<and> 0 \<le> d \<and> 0 \<le> t)"
      using 4 by blast
    show "\<forall>ss'. map fin_session ss' = sessions P \<longrightarrow>
            (\<forall>i < length es. \<forall>r d t.
               collected ss' de m (es ! i) \<noteq> []
               \<and> py_stats (first_pixel_scale ss') (map fin_frame (collected ss' de m (es ! i)))
                   = Inr (Fin r, Fin d, Fin t) \<longrightarrow>
               ra_rms (correlate_guiding_with_exposures ss' es de m ! i) = Some r
               \<and> dec_rms (correlate_guiding_with_exposures ss' es de m ! i) = Some d
               \<and> total_rms (correlate_guiding_with_exposures ss' es de m ! i) = Some t
               \<and> t = sqrt (r\<^sup>2 + d\<^sup>2) \<and> 0 \<le> r \<and> 0 \<le> d \<and> 0 \<le> t)"
      using 5 by blast
  qed
qed

theorem rms_quadrature_finite_witness:
  "sessions (fst (PHD2Parser_parse py_float py_int PHD2Parser_init ex_guide_log))
     = [ex_float_session]
   \<and> py_session_ra_rms ex_float_session = Fin 6
   \<and> py_session_dec_rms ex_float_session = Fin 8
   \<and> py_session_total_rms ex_float_session = Inr (Fin 10)
   \<and> (10::real) = sqrt (6\<^sup>2 + 8\<^sup>2) \<and> (0::real) \<le> 6 \<and> (0::real) \<le> 8 \<and> (0::real) \<le> 10
   \<and> ra_rms (correlate_guiding_with_exposures [ex_parsed_session]
                  [ex_exposure_a, ex_exposure_b] None 3 ! 0) = Some 6
   \<and> dec_rms (correlate_guiding_with_exposures [ex_parsed_session]
                  [ex_exposure_a, ex_exposure_b] None 3 ! 0) = Some 8
   \<and> total_rms (correlate_guiding_with_exposures [ex_parsed_session]
                  [ex_exposure_a, ex_exposure_b] None 3 ! 0) = Some 10"
proof -
  have p: "sessions (fst (PHD2Parser_parse py_float py_int PHD2Parser_init ex_guide_log))
           = [ex_float_session]"
    by (rule ex_guide_log_float_parsed)
  have mem: "ex_float_session \<in> set (sessions (fst (PHD2Parser_parse py_float py_int
          PHD2Parser_init ex_guide_log)))"
    unfolding p by simp
  have emb: "map fin_session [ex_parsed_session]
             = sessions (fst (PHD2Parser_parse py_float py_int PHD2Parser_init ex_guide_log))"
    unfolding p by (simp add: ex_float_session_fin)
  have sc: "first_pixel_scale [ex_parsed_session] = 2"
    by (simp add: ex_parsed_session_def)
  have "frames ex_parsed_session \<noteq> []" by (simp add: ex_parsed_session_def)
  then have c: "collected [ex_parsed_session] None 3 ([ex_exposure_a, ex_exposure_b] ! 0) \<noteq> []"
    by (simp add: ex_collected)
  have st: "py_stats (first_pixel_scale [ex_parsed_session])
              (map fin_frame (collected [ex_parsed_session] None 3
                 ([ex_exposure_a, ex_exposure_b] ! 0))) = Inr (Fin 6, Fin 8, Fin 10)"
    unfolding sc by (simp add: ex_float_collected)
  have l: "0 < length [ex_exposure_a, ex_exposure_b]" by simp
  note T = rms_quadrature_finite [of py_float py_int PHD2Parser_init ex_guide_log
      60 None 3 "[ex_exposure_a, ex_exposure_b]"]
  have pre: "py_session_ra_rms ex_float_session = Fin 6
             \<and> py_session_dec_rms ex_float_session = Fin 8
             \<and> py_session_total_rms ex_float_session = Inr (Fin 10)"
    by (intro conjI ex_float_rms)
  have a: "(10::real) = sqrt (6\<^sup>2 + 8\<^sup>2) \<and> (0::real) \<le> 6 \<and> (0::real) \<le> 8 \<and> (0::real) \<le> 10"
    by (rule T [THEN conjunct1, rule_format, OF mem pre])
  have b: "ra_rms (correlate_guiding_with_exposures [ex_parsed_session]
                  [ex_exposure_a, ex_exposure_b] None 3 ! 0) = Some 6
   \<and> dec_rms (correlate_guiding_with_exposures [ex_parsed_session]
                  [ex_exposure_a, ex_exposure_b] None 3 ! 0) = Some 8
   \<and> total_rms (correlate_guiding_with_exposures [ex_parsed_session]
                  [ex_exposure_a, ex_exposure_b] None 3 ! 0) = Some 10
   \<and> (10::real) = sqrt (6\<^sup>2 + 8\<^sup>2) \<and> (0::real) \<le> 6 \<and> (0::real) \<le> 8 \<and> (0::real) \<le> 10"
    by (rule T [THEN conjunct2, THEN conjunct2, THEN conjunct2, THEN conjunct2, rule_format,
          OF emb l conjI [OF c st]])
  from b have b1: "ra_rms (correlate_guiding_with_exposures [ex_parsed_session]
                  [ex_exposure_a, ex_exposure_b] None 3 ! 0) = Some 6"
    and b2: "dec_rms (correlate_guiding_with_exposures [ex_parsed_session]
                  [ex_exposure_a, ex_exposure_b] None 3 ! 0) = Some 8"
    and b3: "total_rms (correlate_guiding_with_exposures [ex_parsed_session]
                  [ex_exposure_a, ex_exposure_b] None 3 ! 0) = Some 10"
    by blast+
  show ?thesis
    by (intro conjI p ex_float_rms(1) ex_float_rms(2) ex_float_rms(3) a [THEN conjunct1]
        a [THEN conjunct2, THEN conjunct1] a [THEN conjunct2, THEN conjunct2, THEN conjunct1]
        a [THEN conjunct2, THEN conjunct2, THEN conjunct2] b1 b2 b3)
qed

subsection \<open>State kept across two calls of \<open>parse\<close>\<close>

text \<open>The dither events that a parser holds before a call of \<open>parse\<close> are still there,
  in front, after the call: no step removes one.\<close>

lemma steps_keep_dithers:
  assumes "f \<in> set (line_steps ts line)" and "\<exists>ext. dither_events p = ds @ ext"
  shows "\<exists>ext. dither_events (fst (f p)) = ds @ ext"
proof (cases "f = dither_end ts line")
  case True
  then show ?thesis using assms(2)
    by (auto simp: dither_end_def split: option.splits)
next
  case False
  then have "dither_events (fst (f p)) = dither_events p"
    using assms(1) by (auto simp: line_steps_def steps_dither_events)
  then show ?thesis using assms(2) by simp
qed

lemma parse_line_keeps_dithers:
  assumes "\<exists>ext. dither_events p = ds @ ext"
  shows "\<exists>ext. dither_events (fst (parse_line line p)) = ds @ ext"
proof (cases "parse_timestamp line")
  case (Inl e)
  then show ?thesis using assms by (simp add: parse_line_def)
next
  case (Inr ot)
  show ?thesis
  proof (cases ot)
    case None
    then show ?thesis using Inr assms by (simp add: parse_line_def)
  next
    case (Some ts)
    have "\<exists>ext. dither_events (fst (run_steps (line_steps ts line) p)) = ds @ ext"
      by (rule run_steps_invariant[where I = "\<lambda>p. \<exists>ext. dither_events p = ds @ ext"])
        (auto intro: steps_keep_dithers assms)
    then show ?thesis using Inr Some by (simp add: parse_line_def)
  qed
qed

lemma nina_loop_keeps_dithers:
  "\<exists>ext. dither_events p = ds @ ext \<Longrightarrow>
   \<exists>ext. dither_events (fst (nina_loop ls p)) = ds @ ext"
proof (induction ls arbitrary: p)
  case Nil
  then show ?case by simp
next
  case (Cons l ls)
  obtain p' r where pl: "parse_line (strip l) p = (p', r)" by (cases "parse_line (strip l) p")
  have a: "\<exists>ext. dither_events p' = ds @ ext"
    using parse_line_keeps_dithers[OF Cons.prems, of "strip l"] pl by simp
  show ?case
  proof (cases r)
    case None
    then show ?thesis using pl Cons.IH[OF a] by simp
  next
    case (Some e)
    then show ?thesis using pl a by simp
  qed
qed

lemma reparse_keeps_dither_events:
  "\<exists>ext. dither_events (fst (NINAParser_parse q ls)) = dither_events q @ ext"
proof -
  have "\<exists>ext. dither_events (q\<lparr>autofocus_runs := [], exposures := [],
          filter_changes := [], meridian_flips := [], rms_alerts := []\<rparr>) = dither_events q @ ext"
    by simp
  from nina_loop_keeps_dithers[OF this, of ls]
  show ?thesis by (simp add: NINAParser_parse_def)
qed

text \<open>
  C1. The claim says that a second \<open>parse\<close> leaves the parser as a fresh parser that
  parsed only the second file. \<open>NINAParser.parse\<close> resets five lists only. After a log with
  one closed dither, parsing a log without markers leaves the dither event and the session
  start of the first log in the parser, where a fresh parser has no dither event and the
  session start of the second log.
\<close>

theorem reparse_keeps_state:
  "dither_events (fst (NINAParser_parse (fst (NINAParser_parse NINAParser_init ex_dither_log))
                        ex_plain_log))
     = [\<lparr>dither_start_time = 1769119459000000, dither_end_time = Some 1769119469500000\<rparr>]
   \<and> dither_events (fst (NINAParser_parse NINAParser_init ex_plain_log)) = []
   \<and> session_start (fst (NINAParser_parse (fst (NINAParser_parse NINAParser_init ex_dither_log))
                            ex_plain_log)) = Some 1769119459000000
   \<and> session_start (fst (NINAParser_parse NINAParser_init ex_plain_log)) = Some 1769202000000000"
  by code_simp

subsection \<open>Timestamps without a fractional part\<close>

text \<open>A line whose twentieth character is not a dot has no timestamp for the parser, and
  \<open>_parse_line\<close> returns without a change.\<close>

lemma rmatch_ones_then_literal:
  "rmatch (map One cs @ One (Lit a) # r) s cur caps = Some res \<Longrightarrow>
   length cs < length s \<and> s ! length cs = a"
proof (induction cs arbitrary: s cur)
  case Nil
  then show ?case by (cases s) (auto split: if_splits)
next
  case (Cons c cs)
  then show ?case by (cases s) (auto split: if_splits)
qed

lemma re_timestamp_shape:
  "re_timestamp = GOpen # map One
     [Digit, Digit, Digit, Digit, Lit CHR ''-'', Digit, Digit, Lit CHR ''-'', Digit, Digit,
      Lit CHR ''T'', Digit, Digit, Lit CHR '':'', Digit, Digit, Lit CHR '':'', Digit, Digit]
     @ One (Lit CHR ''.'') # [Plus Digit, GClose]"
  by code_simp

lemma no_fraction_no_timestamp:
  assumes "length line \<le> 19 \<or> line ! 19 \<noteq> CHR ''.''"
  shows "parse_timestamp line = Inr None" and "parse_line line p = (p, None)"
proof -
  have "re_match re_timestamp line = None"
  proof (cases "re_match re_timestamp line")
    case (Some res)
    let ?cs = "[Digit, Digit, Digit, Digit, Lit CHR ''-'', Digit, Digit, Lit CHR ''-'', Digit,
      Digit, Lit CHR ''T'', Digit, Digit, Lit CHR '':'', Digit, Digit, Lit CHR '':'', Digit, Digit]"
    have n: "length ?cs = 19" by simp
    have "rmatch (map One ?cs @ One (Lit CHR ''.'') # [Plus Digit, GClose]) line (Some []) []
          = Some res"
      using Some unfolding re_match_def re_timestamp_shape by simp
    from rmatch_ones_then_literal[OF this]
    have "length line > 19 \<and> line ! 19 = CHR ''.''"
      unfolding n .
    with assms show ?thesis by auto
  qed simp
  then show "parse_timestamp line = Inr None" by (simp add: parse_timestamp_def)
  then show "parse_line line p = (p, None)" by (simp add: parse_line_def)
qed

text \<open>
  C4. The claim says that a line whose timestamp has no fractional part is processed. The
  pattern of \<open>_parse_timestamp\<close> requires the fractional part, so the dither start line with
  the timestamp \<open>2026-01-22T22:04:19\<close> has no timestamp for the parser and changes nothing:
  the parser stays as it was constructed. The same line with \<open>.000\<close> sets the session start
  and opens a dither.
\<close>

theorem second_precision_line_ignored:
  "parse_timestamp ex_second_precision_line = Inr None
   \<and> NINAParser_parse NINAParser_init [ex_second_precision_line] = (NINAParser_init, None)
   \<and> session_start (fst (NINAParser_parse NINAParser_init [ex_millisecond_line]))
       = Some 1769119459000000
   \<and> pending_dither (fst (NINAParser_parse NINAParser_init [ex_millisecond_line]))
       = Some \<lparr>dither_start_time = 1769119459000000, dither_end_time = None\<rparr>"
  by code_simp

end
